theory Spec2Isabelle
  imports Complex_Main "HOL-Library.Multiset" "HOL-Library.Product_Lexorder"
    "HOL-Library.Sublist" "HOL-Library.AList" "HOL-Library.Char_ord" "HOL-Library.List_Lexorder"
begin

section \<open>Values, findings and errors\<close>

text \<open>
  The analyzers read loosely typed records: a record is a Python dict from field names to
  flat values. A flat value is \<open>None\<close>, a bool, an int, a float or a str. Python floats are
  modelled by the reals: every comparison and every quotient below is the exact one, and
  there is no NaN and no infinity. Strings are lists of 8-bit characters, so the string
  operations below are Python's on ASCII text.
\<close>

datatype scalar = SNone | SBool bool | SInt int | SFloat real | SStr string

type_synonym pydict = "(string \<times> scalar) list"

text \<open>Values stored in the metadata of a finding: flat values, lists and dicts of them.\<close>

datatype pyval = Scalar scalar | PList "pyval list" | PDict "(string \<times> pyval) list"

text \<open>
  The free-form texts of a finding are f-strings. A formatted number is kept as the
  format and the number (\<open>FmtFixed n x\<close> is \<open>{x:.nf}\<close>, \<open>FmtPercent n x\<close> is
  \<open>{x:.n%}\<close>, \<open>FmtInt i\<close> is \<open>{i}\<close> of an int, \<open>FmtVal v\<close> is \<open>{v}\<close> of any flat value);
  the literal parts are strings.
\<close>

datatype piece = Lit string | FmtInt int | FmtFixed nat real | FmtPercent nat real | FmtVal scalar

type_synonym ftext = "piece list"

text \<open>\<open>class Issue\<close> of \<open>base_agent.py\<close>.\<close>

record Issue =
  severity :: string
  category :: string
  title :: string
  description :: ftext
  affected_component :: string
  impact :: ftext
  recommendation :: ftext
  confidence :: real
  metadata :: "(string \<times> pyval) list"

datatype error = TypeError | ValueError | StatisticsError

section \<open>The shared base: confidence and prioritization\<close>

text \<open>
  \<open>BaseAgent._calculate_confidence\<close>. The evidence is a dict from evidence names to
  numbers; the loop runs over the weight table in its order.
\<close>

definition weights :: "(string \<times> real) list" where
  "weights = [(''pattern_match'', 3 / 10), (''statistical_significance'', 4 / 10),
              (''historical_data'', 3 / 10)]"

definition calculate_confidence :: "(string \<rightharpoonup> real) \<Rightarrow> real" where
  "calculate_confidence evidence =
     (let score = fold (\<lambda>(key, weight) score.
                          (case evidence key of
                             None \<Rightarrow> score
                           | Some v \<Rightarrow> score + v * weight)) weights 0
      in min (max score 0) 1)"

text \<open>
  \<open>BaseAgent._prioritize_issues\<close>. \<open>severity_order.get(x.severity, 0)\<close> is
  \<open>severity_rank\<close>; the key of an issue is the pair of its rank and its confidence, and
  Python compares pairs lexicographically.
\<close>

definition severity_order :: "string \<rightharpoonup> nat" where
  "severity_order = [''critical'' \<mapsto> 4, ''high'' \<mapsto> 3, ''medium'' \<mapsto> 2, ''low'' \<mapsto> 1]"

definition severity_rank :: "string \<Rightarrow> nat" where
  "severity_rank s = (case severity_order s of None \<Rightarrow> 0 | Some r \<Rightarrow> r)"

definition prio_key :: "Issue \<Rightarrow> nat \<times> real" where
  "prio_key x = (severity_rank (severity x), confidence x)"

text \<open>
  \<open>sorted(xs, key=key, reverse=True)\<close>: CPython reverses the list, sorts it stably in
  ascending order of the keys and reverses the result, so that elements with equal keys
  keep their original order. \<open>sort_key\<close> is a stable insertion sort.
\<close>

definition sorted_reverse :: "('a \<Rightarrow> 'k::linorder) \<Rightarrow> 'a list \<Rightarrow> 'a list" where
  "sorted_reverse key xs = rev (sort_key key (rev xs))"

definition prioritize_issues :: "Issue list \<Rightarrow> Issue list" where
  "prioritize_issues issues = sorted_reverse prio_key issues"

text \<open>The severities of the fixed vocabulary.\<close>

definition recognized :: "Issue \<Rightarrow> bool" where
  "recognized x = (severity x \<in> set [''critical'', ''high'', ''medium'', ''low''])"

section \<open>Strings\<close>

text \<open>
  \<open>str.lower\<close> and \<open>str.title\<close> on ASCII text. \<open>title\<close> upper-cases a cased
  character that follows an uncased one (or starts the string) and lower-cases every other
  cased character. \<open>a in b\<close> on strings is \<open>sublist a b\<close>: \<open>a\<close> occurs in \<open>b\<close> as a
  contiguous block.
\<close>

definition ascii_upper :: string where "ascii_upper = ''ABCDEFGHIJKLMNOPQRSTUVWXYZ''"
definition ascii_lower :: string where "ascii_lower = ''abcdefghijklmnopqrstuvwxyz''"

definition lower_char :: "char \<Rightarrow> char" where
  "lower_char c = (case map_of (zip ascii_upper ascii_lower) c of None \<Rightarrow> c | Some d \<Rightarrow> d)"

definition upper_char :: "char \<Rightarrow> char" where
  "upper_char c = (case map_of (zip ascii_lower ascii_upper) c of None \<Rightarrow> c | Some d \<Rightarrow> d)"

definition is_cased :: "char \<Rightarrow> bool" where
  "is_cased c = (c \<in> set ascii_upper \<or> c \<in> set ascii_lower)"

definition py_lower :: "string \<Rightarrow> string" where
  "py_lower s = map lower_char s"

fun title_from :: "bool \<Rightarrow> string \<Rightarrow> string" where
  "title_from prev [] = []"
| "title_from prev (c # cs) =
     (if is_cased c then (if prev then lower_char c else upper_char c) # title_from True cs
      else c # title_from False cs)"

definition py_title :: "string \<Rightarrow> string" where
  "py_title s = title_from False s"

section \<open>The correlator\<close>

text \<open>\<open>IssueDetector._detect_cascading_failures\<close> of \<open>issue_detector.py\<close>.\<close>

definition is_build_failure :: "Issue \<Rightarrow> bool" where
  "is_build_failure i = (sublist ''build'' (py_lower (title i))
                          \<and> severity i \<in> set [''high'', ''critical''])"

definition is_deployment_failure :: "Issue \<Rightarrow> bool" where
  "is_deployment_failure i = sublist ''deployment'' (py_lower (title i))"

definition detect_cascading_failures :: "Issue list \<Rightarrow> Issue list" where
  "detect_cascading_failures issues =
     (let build_failures = filter is_build_failure issues;
          deployment_failures = filter is_deployment_failure issues
      in if build_failures \<noteq> [] \<and> deployment_failures \<noteq> [] then
           [\<lparr>severity = ''critical'',
             category = ''reliability'',
             title = ''Cascading Failures Detected'',
             description = [Lit ''Build failures ('', FmtInt (int (length build_failures)),
                            Lit '') are likely causing deployment issues ('',
                            FmtInt (int (length deployment_failures)), Lit '')''],
             affected_component = ''CI/CD Pipeline'',
             impact = [Lit ''Build failures block deployments, creating a bottleneck in the release process''],
             recommendation = [Lit ''Fix build issues first: address test failures, resolve dependency conflicts, improve build stability''],
             confidence = 85 / 100,
             metadata = [(''build_failures'', Scalar (SInt (int (length build_failures)))),
                         (''deployment_failures'', Scalar (SInt (int (length deployment_failures))))]\<rparr>]
         else [])"

text \<open>
  \<open>IssueDetector._detect_systemic_issues\<close>. The dict \<open>category_counts\<close> keeps its keys
  in the order of their first insertion; \<open>count_category\<close> is one round of the counting
  loop, \<open>category_counts[c] = category_counts.get(c, 0) + 1\<close>.
\<close>

definition count_category :: "Issue \<Rightarrow> (string \<times> nat) list \<Rightarrow> (string \<times> nat) list" where
  "count_category issue category_counts =
     AList.update (category issue)
       ((case map_of category_counts (category issue) of None \<Rightarrow> 0 | Some n \<Rightarrow> n) + 1)
       category_counts"

definition systemic_issue :: "string \<Rightarrow> nat \<Rightarrow> Issue" where
  "systemic_issue cat cnt =
     \<lparr>severity = ''high'',
      category = cat,
      title = ''Systemic '' @ py_title cat @ '' Issues'',
      description = [Lit ''Detected '', FmtInt (int cnt), Lit '' '', Lit cat,
                     Lit '' issues across pipelines''],
      affected_component = ''Platform-Wide'',
      impact = [Lit ''Multiple '', Lit cat,
                Lit '' issues indicate a systemic problem requiring platform-level attention''],
      recommendation = [Lit ''Conduct root cause analysis for '', Lit cat,
                        Lit '' issues, implement platform-level improvements, review '', Lit cat,
                        Lit '' best practices''],
      confidence = 75 / 100,
      metadata = [(''issue_count'', Scalar (SInt (int cnt))), (''category'', Scalar (SStr cat))]\<rparr>"

definition detect_systemic_issues :: "Issue list \<Rightarrow> Issue list" where
  "detect_systemic_issues issues =
     (let category_counts = fold count_category issues []
      in concat (map (\<lambda>(cat, cnt). if 5 \<le> cnt then [systemic_issue cat cnt] else [])
                     category_counts))"

section \<open>Python operations on flat values\<close>

text \<open>
  \<open>num_of\<close> is the number a flat value stands for in arithmetic and in comparisons with
  numbers (a bool is an int); \<open>None\<close> and strings are not numbers. \<open>truthy\<close> is the truth
  value of \<open>if v:\<close>. \<open>py_eq\<close> is \<open>==\<close>, which never raises: numbers are equal by value,
  across bool, int and float.
\<close>

definition num_of :: "scalar \<Rightarrow> real option" where
  "num_of v = (case v of
                 SNone \<Rightarrow> None
               | SBool b \<Rightarrow> Some (if b then 1 else 0)
               | SInt i \<Rightarrow> Some (real_of_int i)
               | SFloat r \<Rightarrow> Some r
               | SStr s \<Rightarrow> None)"

definition truthy :: "scalar \<Rightarrow> bool" where
  "truthy v = (case v of
                 SNone \<Rightarrow> False
               | SBool b \<Rightarrow> b
               | SInt i \<Rightarrow> i \<noteq> 0
               | SFloat r \<Rightarrow> r \<noteq> 0
               | SStr s \<Rightarrow> s \<noteq> [])"

definition py_eq :: "scalar \<Rightarrow> scalar \<Rightarrow> bool" where
  "py_eq a b = (case (num_of a, num_of b) of
                  (Some x, Some y) \<Rightarrow> x = y
                | (None, None) \<Rightarrow> a = b
                | _ \<Rightarrow> False)"

text \<open>\<open>d.get(k)\<close> and \<open>d.get(k, default)\<close>.\<close>

definition get :: "pydict \<Rightarrow> string \<Rightarrow> scalar" where
  "get d k = (case map_of d k of None \<Rightarrow> SNone | Some v \<Rightarrow> v)"

definition get_default :: "pydict \<Rightarrow> string \<Rightarrow> scalar \<Rightarrow> scalar" where
  "get_default d k dflt = (case map_of d k of None \<Rightarrow> dflt | Some v \<Rightarrow> v)"

text \<open>An exception leaves the function: the rest runs only on a result.\<close>

definition bind_err :: "error + 'a \<Rightarrow> ('a \<Rightarrow> error + 'b) \<Rightarrow> error + 'b" where
  "bind_err m f = (case m of Inl e \<Rightarrow> Inl e | Inr x \<Rightarrow> f x)"

text \<open>
  \<open>sum(vs)\<close> adds the values to the int 0 and raises TypeError at a value that is not a
  number. \<open>v > c\<close> and \<open>v < c\<close> against a number \<open>c\<close> raise TypeError when \<open>v\<close> is
  \<open>None\<close> or a string.
\<close>

fun py_sum :: "scalar list \<Rightarrow> error + real" where
  "py_sum [] = Inr 0"
| "py_sum (v # vs) =
     (case num_of v of
        None \<Rightarrow> Inl TypeError
      | Some x \<Rightarrow> bind_err (py_sum vs) (\<lambda>s. Inr (x + s)))"

definition py_gt :: "scalar \<Rightarrow> real \<Rightarrow> error + bool" where
  "py_gt v c = (case num_of v of None \<Rightarrow> Inl TypeError | Some x \<Rightarrow> Inr (c < x))"

definition py_lt :: "scalar \<Rightarrow> real \<Rightarrow> error + bool" where
  "py_lt v c = (case num_of v of None \<Rightarrow> Inl TypeError | Some x \<Rightarrow> Inr (x < c))"

text \<open>
  \<open>max(vs)\<close> on a list of numbers: the first of the largest values, as the value it is in
  the list. It is only called after \<open>sum(vs)\<close> has returned, so on numbers.
\<close>

fun py_max_from :: "scalar \<Rightarrow> scalar list \<Rightarrow> error + scalar" where
  "py_max_from m [] = Inr m"
| "py_max_from m (x # xs) =
     (case (num_of x, num_of m) of
        (Some a, Some b) \<Rightarrow> py_max_from (if b < a then x else m) xs
      | _ \<Rightarrow> Inl TypeError)"

definition py_max :: "scalar list \<Rightarrow> error + scalar" where
  "py_max vs = (case vs of [] \<Rightarrow> Inl ValueError | v # rest \<Rightarrow> py_max_from v rest)"

text \<open>\<open>sep.join(vs)\<close> raises TypeError at a value that is not a string.\<close>

fun py_join :: "string \<Rightarrow> scalar list \<Rightarrow> error + string" where
  "py_join sep [] = Inr []"
| "py_join sep [SStr s] = Inr s"
| "py_join sep (SStr s # v # vs) = bind_err (py_join sep (v # vs)) (\<lambda>r. Inr (s @ sep @ r))"
| "py_join sep (_ # vs) = Inl TypeError"

text \<open>Running a check on every element of a list, in order, and appending the results.\<close>

fun collect :: "('a \<Rightarrow> error + 'b list) \<Rightarrow> 'a list \<Rightarrow> error + 'b list" where
  "collect f [] = Inr []"
| "collect f (x # xs) =
     bind_err (f x) (\<lambda>ys. bind_err (collect f xs) (\<lambda>zs. Inr (ys @ zs)))"

section \<open>The delivery-pipeline analyzer\<close>

text \<open>
  The metric batch of \<open>DevOpsAgent.analyze\<close>: every section may be absent. The sections
  are lists of records, but for \<open>resources\<close> (two lists of numbers),
  \<open>security_scans\<close> (each scan has a list of vulnerability records) and \<open>kubernetes\<close>
  (a dict of sections).
\<close>

record Resources =
  cpu_usage :: "scalar list option"
  memory_usage :: "scalar list option"

record Scan =
  vulnerabilities :: "pydict list option"

record Kubernetes =
  pods :: "pydict list option"
  nodes :: "pydict list option"
  k8s_deployments :: "pydict list option"
  resource_usage :: "pydict option"
  pvcs :: "pydict list option"
  service_mesh :: "pydict option"

record Batch =
  builds :: "pydict list option"
  tests :: "pydict list option"
  deployments :: "pydict list option"
  resources :: "Resources option"
  security_scans :: "Scan list option"
  kubernetes :: "Kubernetes option"

text \<open>\<open>data.get(section, [])\<close> and \<open>data.get(section, {})\<close> for a flat dict.\<close>

definition section_list :: "'a list option \<Rightarrow> 'a list" where
  "section_list s = (case s of None \<Rightarrow> [] | Some xs \<Rightarrow> xs)"

text \<open>\<open>DevOpsAgent._analyze_build_performance\<close>.\<close>

definition slow_builds_threshold :: real where
  "slow_builds_threshold = 600"

definition slow_build_issue :: "real \<Rightarrow> nat \<Rightarrow> Issue" where
  "slow_build_issue avg_duration sample_size =
     \<lparr>severity = ''medium'',
      category = ''performance'',
      title = ''Slow Build Times'',
      description = [Lit ''Average build time is '', FmtFixed 0 avg_duration,
                     Lit '' seconds, exceeding recommended threshold''],
      affected_component = ''CI/CD Pipeline'',
      impact = [Lit ''Delayed feedback cycles, reduced developer productivity. Average delay: '',
                FmtFixed 0 (avg_duration - 300), Lit ''s per build''],
      recommendation = [Lit ''Consider: 1) Enable build caching, 2) Parallelize test execution, 3) Use faster build agents, 4) Optimize dependency resolution''],
      confidence = 9 / 10,
      metadata = [(''avg_duration'', Scalar (SFloat avg_duration)),
                  (''sample_size'', Scalar (SInt (int sample_size)))]\<rparr>"

definition build_failure_issue :: "real \<Rightarrow> nat \<Rightarrow> nat \<Rightarrow> Issue" where
  "build_failure_issue failure_rate failed_builds total_builds =
     \<lparr>severity = ''high'',
      category = ''reliability'',
      title = ''High Build Failure Rate'',
      description = [Lit ''Build failure rate is '', FmtPercent 1 failure_rate,
                     Lit '', indicating instability''],
      affected_component = ''Build Process'',
      impact = [FmtInt (int failed_builds), Lit '' out of '', FmtInt (int total_builds),
                Lit '' builds failed. This blocks deployments and wastes resources''],
      recommendation = [Lit ''Investigate common failure patterns, improve test stability, add pre-commit hooks, review recent code changes''],
      confidence = 95 / 100,
      metadata = [(''failure_rate'', Scalar (SFloat failure_rate)),
                  (''failed_count'', Scalar (SInt (int failed_builds))),
                  (''total_count'', Scalar (SInt (int total_builds)))]\<rparr>"

definition slow_build_check :: "scalar list \<Rightarrow> error + Issue list" where
  "slow_build_check durations =
     (if durations \<noteq> [] then
        bind_err (py_sum durations) (\<lambda>total.
          let avg_duration = total / real (length durations)
          in Inr (if slow_builds_threshold < avg_duration
                  then [slow_build_issue avg_duration (length durations)] else []))
      else Inr [])"

definition analyze_build_performance :: "pydict list \<Rightarrow> error + Issue list" where
  "analyze_build_performance bs =
     (if bs = [] then Inr []
      else
        let durations = map (\<lambda>b. get_default b ''duration'' (SInt 0))
                            (filter (\<lambda>b. py_eq (get b ''status'') (SStr ''success'')) bs)
        in bind_err (slow_build_check durations) (\<lambda>issues.
             let total_builds = length bs;
                 failed_builds = length (filter (\<lambda>b. py_eq (get b ''status'') (SStr ''failed'')) bs);
                 failure_rate = (if 0 < total_builds
                                 then real failed_builds / real total_builds else 0)
             in Inr (issues @ (if 15 / 100 < failure_rate
                               then [build_failure_issue failure_rate failed_builds total_builds]
                               else []))))"

text \<open>
  \<open>DevOpsAgent._analyze_test_reliability\<close>. \<open>test_results\<close> is a dict from test names to
  the numbers of passed and failed runs, in the order of first insertion; \<open>record_test\<close>
  is one round of the first loop for a test with a name.
\<close>

fun record_test :: "scalar \<Rightarrow> bool \<Rightarrow> (scalar \<times> nat \<times> nat) list \<Rightarrow> (scalar \<times> nat \<times> nat) list" where
  "record_test test_name ok [] = [(test_name, if ok then (1, 0) else (0, 1))]"
| "record_test test_name ok ((k, p, f) # rest) =
     (if py_eq k test_name then (k, if ok then (p + 1, f) else (p, f + 1)) # rest
      else (k, p, f) # record_test test_name ok rest)"

definition test_results :: "pydict list \<Rightarrow> (scalar \<times> nat \<times> nat) list" where
  "test_results ts =
     fold (\<lambda>test results.
             let test_name = get test ''name''
             in if truthy test_name
                then record_test test_name (py_eq (get test ''status'') (SStr ''passed'')) results
                else results) ts []"

definition flaky_tests :: "(scalar \<times> nat \<times> nat) list \<Rightarrow> (scalar \<times> real) list" where
  "flaky_tests results =
     concat (map (\<lambda>(test_name, p, f).
               let total = p + f
               in if 1 < total \<and> 0 < f \<and> 0 < p then
                    (let failure_rate = real f / real total
                     in if 1 / 10 < failure_rate \<and> failure_rate < 9 / 10
                        then [(test_name, failure_rate)] else [])
                  else []) results)"

definition flaky_issue :: "(scalar \<times> real) list \<Rightarrow> string \<Rightarrow> Issue" where
  "flaky_issue flaky names =
     \<lparr>severity = ''high'',
      category = ''reliability'',
      title = ''Flaky Tests Detected'',
      description = [Lit ''Found '', FmtInt (int (length flaky)),
                     Lit '' flaky tests with intermittent failures''],
      affected_component = ''Test Suite'',
      impact = [Lit ''Flaky tests reduce confidence in test results, waste time investigating false failures, and may mask real issues''],
      recommendation = [Lit ''Investigate and fix flaky tests: '', Lit names,
                        Lit (if 3 < length flaky then ''...'' else ''''),
                        Lit ''. Common causes: timing issues, shared state, external dependencies''],
      confidence = 85 / 100,
      metadata = [(''flaky_tests'',
                   PList (map (\<lambda>(n, r). PDict [(''name'', Scalar n), (''failure_rate'', Scalar (SFloat r))])
                              flaky))]\<rparr>"

definition analyze_test_reliability :: "pydict list \<Rightarrow> error + Issue list" where
  "analyze_test_reliability ts =
     (let flaky = flaky_tests (test_results ts)
      in if flaky \<noteq> [] then
           bind_err (py_join '', '' (map fst (take 3 flaky))) (\<lambda>names.
             Inr [flaky_issue flaky names])
         else Inr [])"

text \<open>\<open>DevOpsAgent._analyze_deployments\<close>.\<close>

definition deployment_failure_issue :: "real \<Rightarrow> nat \<Rightarrow> nat \<Rightarrow> Issue" where
  "deployment_failure_issue failure_rate failed_count total_count =
     \<lparr>severity = ''critical'',
      category = ''reliability'',
      title = ''High Deployment Failure Rate'',
      description = [Lit ''Deployment failure rate is '', FmtPercent 1 failure_rate],
      affected_component = ''Deployment Pipeline'',
      impact = [Lit ''Failed deployments cause service disruptions, rollbacks, and delayed feature releases''],
      recommendation = [Lit ''Review deployment process, implement better pre-deployment testing, add automated rollback mechanisms, improve deployment scripts''],
      confidence = 92 / 100,
      metadata = [(''failure_rate'', Scalar (SFloat failure_rate)),
                  (''failed_count'', Scalar (SInt (int failed_count))),
                  (''total_count'', Scalar (SInt (int total_count)))]\<rparr>"

definition analyze_deployments :: "pydict list \<Rightarrow> error + Issue list" where
  "analyze_deployments ds =
     (if ds = [] then Inr []
      else
        let recent_deployments = filter (\<lambda>d. truthy (get d ''timestamp'')) ds;
            failed_deployments = filter (\<lambda>d. py_eq (get d ''status'') (SStr ''failed''))
                                        recent_deployments
        in if failed_deployments \<noteq> [] then
             (let failure_rate = real (length failed_deployments) / real (length recent_deployments)
              in Inr (if 1 / 10 < failure_rate
                      then [deployment_failure_issue failure_rate (length failed_deployments)
                              (length recent_deployments)]
                      else []))
           else Inr [])"

text \<open>\<open>DevOpsAgent._analyze_resource_usage\<close>.\<close>

definition cpu_issue :: "scalar \<Rightarrow> real \<Rightarrow> real \<Rightarrow> Issue" where
  "cpu_issue max_cpu max_value avg_cpu =
     \<lparr>severity = ''high'',
      category = ''performance'',
      title = ''High CPU Usage'',
      description = [Lit ''CPU usage reached '', FmtFixed 1 max_value, Lit ''% (average: '',
                     FmtFixed 1 avg_cpu, Lit ''%)''],
      affected_component = ''Build Infrastructure'',
      impact = [Lit ''High CPU usage causes build slowdowns, potential timeouts, and resource contention''],
      recommendation = [Lit ''Scale build agents, optimize build processes, distribute workload, investigate CPU-intensive operations''],
      confidence = 88 / 100,
      metadata = [(''max_cpu'', Scalar max_cpu), (''avg_cpu'', Scalar (SFloat avg_cpu))]\<rparr>"

definition memory_issue :: "scalar \<Rightarrow> real \<Rightarrow> real \<Rightarrow> Issue" where
  "memory_issue max_memory max_value avg_memory =
     \<lparr>severity = ''high'',
      category = ''performance'',
      title = ''High Memory Usage'',
      description = [Lit ''Memory usage reached '', FmtFixed 1 max_value, Lit ''% (average: '',
                     FmtFixed 1 avg_memory, Lit ''%)''],
      affected_component = ''Build Infrastructure'',
      impact = [Lit ''High memory usage can cause OOM errors, build failures, and system instability''],
      recommendation = [Lit ''Increase memory allocation, optimize memory-intensive processes, investigate memory leaks, add memory monitoring''],
      confidence = 87 / 100,
      metadata = [(''max_memory'', Scalar max_memory), (''avg_memory'', Scalar (SFloat avg_memory))]\<rparr>"

text \<open>
  One of the two checks of \<open>_analyze_resource_usage\<close>: the average and the maximum of a
  list of usages, and an issue when the maximum exceeds the limit.
\<close>

definition usage_check :: "scalar list \<Rightarrow> real \<Rightarrow> (scalar \<Rightarrow> real \<Rightarrow> real \<Rightarrow> Issue) \<Rightarrow> error + Issue list" where
  "usage_check usage limit mk_issue =
     (if usage \<noteq> [] then
        bind_err (py_sum usage) (\<lambda>total.
          let avg = total / real (length usage)
          in bind_err (py_max usage) (\<lambda>mx.
               (case num_of mx of
                  None \<Rightarrow> Inl TypeError
                | Some x \<Rightarrow> Inr (if limit < x then [mk_issue mx x avg] else []))))
      else Inr [])"

definition analyze_resource_usage :: "Resources \<Rightarrow> error + Issue list" where
  "analyze_resource_usage rs =
     bind_err (usage_check (section_list (cpu_usage rs)) 90 cpu_issue) (\<lambda>cpu.
       bind_err (usage_check (section_list (memory_usage rs)) 85 memory_issue) (\<lambda>mem.
         Inr (cpu @ mem)))"

text \<open>\<open>DevOpsAgent._analyze_security\<close>: \<open>scan_issues\<close> is one round of its loop.\<close>

definition critical_vulns_issue :: "pydict list \<Rightarrow> string \<Rightarrow> Issue" where
  "critical_vulns_issue critical_vulns cves =
     \<lparr>severity = ''critical'',
      category = ''security'',
      title = ''Critical Security Vulnerabilities Detected'',
      description = [Lit ''Found '', FmtInt (int (length critical_vulns)),
                     Lit '' critical security vulnerabilities''],
      affected_component = ''Dependencies/Code'',
      impact = [Lit ''Critical vulnerabilities pose immediate security risks and must be addressed urgently''],
      recommendation = [Lit ''Update vulnerable dependencies immediately. CVEs: '', Lit cves],
      confidence = 98 / 100,
      metadata = [(''critical_count'', Scalar (SInt (int (length critical_vulns)))),
                  (''vulnerabilities'',
                   PList (map (\<lambda>v. PDict (map (\<lambda>(k, x). (k, Scalar x)) v)) critical_vulns))]\<rparr>"

definition high_vulns_issue :: "nat \<Rightarrow> Issue" where
  "high_vulns_issue high_count =
     \<lparr>severity = ''high'',
      category = ''security'',
      title = ''Multiple High-Severity Vulnerabilities'',
      description = [Lit ''Found '', FmtInt (int high_count),
                     Lit '' high-severity security vulnerabilities''],
      affected_component = ''Dependencies/Code'',
      impact = [Lit ''High-severity vulnerabilities require prompt attention to prevent potential security breaches''],
      recommendation = [Lit ''Review and update vulnerable dependencies, implement security scanning in CI/CD''],
      confidence = 95 / 100,
      metadata = [(''high_count'', Scalar (SInt (int high_count)))]\<rparr>"

definition scan_issues :: "Scan \<Rightarrow> error + Issue list" where
  "scan_issues scan =
     (let vs = section_list (vulnerabilities scan);
          critical_vulns = filter (\<lambda>v. py_eq (get v ''severity'') (SStr ''critical'')) vs;
          high_vulns = filter (\<lambda>v. py_eq (get v ''severity'') (SStr ''high'')) vs
      in bind_err
           (if critical_vulns \<noteq> [] then
              bind_err (py_join '', '' (map (\<lambda>v. get_default v ''cve'' (SStr ''Unknown''))
                                            (take 3 critical_vulns)))
                (\<lambda>cves. Inr [critical_vulns_issue critical_vulns cves])
            else Inr [])
           (\<lambda>crit. Inr (crit @ (if high_vulns \<noteq> [] \<and> 5 < length high_vulns
                                then [high_vulns_issue (length high_vulns)] else []))))"

definition analyze_security :: "Scan list \<Rightarrow> error + Issue list" where
  "analyze_security scans = collect scan_issues scans"

text \<open>\<open>DevOpsAgent._analyze_kubernetes\<close>, one definition for each of its six blocks.\<close>

definition pod_failures_issue :: "pydict list \<Rightarrow> Issue" where
  "pod_failures_issue failed_pods =
     \<lparr>severity = ''critical'',
      category = ''reliability'',
      title = ''Kubernetes Pod Failures'',
      description = [FmtInt (int (length failed_pods)), Lit '' pods are in failed state''],
      affected_component = ''Kubernetes Cluster'',
      impact = [Lit ''Failed pods indicate application crashes, configuration errors, or resource issues. Services may be degraded or unavailable''],
      recommendation = [Lit ''Investigate pod logs with 'kubectl logs <pod-name>'. Common causes: image pull errors, OOM kills, liveness probe failures, misconfigured environment variables''],
      confidence = 95 / 100,
      metadata = [(''failed_pods'', PList (map (\<lambda>p. Scalar (get p ''name'')) (take 5 failed_pods))),
                  (''failed_count'', Scalar (SInt (int (length failed_pods))))]\<rparr>"

definition pending_pods_issue :: "nat \<Rightarrow> Issue" where
  "pending_pods_issue pending_count =
     \<lparr>severity = ''high'',
      category = ''reliability'',
      title = ''Multiple Pods Stuck in Pending State'',
      description = [FmtInt (int pending_count), Lit '' pods cannot be scheduled''],
      affected_component = ''Kubernetes Scheduler'',
      impact = [Lit ''Pending pods indicate resource constraints or scheduling issues, preventing services from scaling or deploying''],
      recommendation = [Lit ''Check node resources with 'kubectl describe nodes'. Verify resource requests/limits, node selectors, taints/tolerations, and cluster autoscaling configuration''],
      confidence = 90 / 100,
      metadata = [(''pending_count'', Scalar (SInt (int pending_count)))]\<rparr>"

definition pod_check :: "pydict list \<Rightarrow> Issue list" where
  "pod_check ps =
     (if ps \<noteq> [] then
        (let failed_pods = filter (\<lambda>p. list_ex (py_eq (get p ''status''))
                                     [SStr ''CrashLoopBackOff'', SStr ''Error'', SStr ''Failed'']) ps;
             pending_pods = filter (\<lambda>p. py_eq (get p ''status'') (SStr ''Pending'')) ps
         in (if failed_pods \<noteq> [] then [pod_failures_issue failed_pods] else [])
            @ (if 3 < length pending_pods then [pending_pods_issue (length pending_pods)] else []))
      else [])"

definition unhealthy_nodes_issue :: "pydict list \<Rightarrow> nat \<Rightarrow> Issue" where
  "unhealthy_nodes_issue unhealthy_nodes total_nodes =
     \<lparr>severity = ''critical'',
      category = ''reliability'',
      title = ''Unhealthy Kubernetes Nodes'',
      description = [FmtInt (int (length unhealthy_nodes)), Lit '' nodes are not in Ready state''],
      affected_component = ''Kubernetes Nodes'',
      impact = [Lit ''Unhealthy nodes reduce cluster capacity and may cause pod evictions or scheduling failures''],
      recommendation = [Lit ''Investigate node conditions with 'kubectl describe node <node-name>'. Check for disk pressure, memory pressure, network issues, or kubelet problems''],
      confidence = 96 / 100,
      metadata = [(''unhealthy_nodes'', PList (map (\<lambda>n. Scalar (get n ''name'')) unhealthy_nodes)),
                  (''unhealthy_count'', Scalar (SInt (int (length unhealthy_nodes)))),
                  (''total_nodes'', Scalar (SInt (int total_nodes)))]\<rparr>"

definition node_check :: "pydict list \<Rightarrow> Issue list" where
  "node_check ns =
     (if ns \<noteq> [] then
        (let unhealthy_nodes = filter (\<lambda>n. \<not> py_eq (get n ''status'') (SStr ''Ready'')) ns
         in if unhealthy_nodes \<noteq> [] then [unhealthy_nodes_issue unhealthy_nodes (length ns)] else [])
      else [])"

text \<open>
  The loop over the deployments of the cluster: the state is the pair of the names of the
  under-scaled and of the failed deployments, and \<open>deployment_step\<close> is one round. \<open>available < desired\<close> is only evaluated
  when \<open>desired > 0\<close> has returned true, so when \<open>desired\<close> is a number.
\<close>

definition deployment_step :: "pydict \<Rightarrow> scalar list \<times> scalar list \<Rightarrow> error + scalar list \<times> scalar list" where
  "deployment_step deploy acc =
     (let desired = get_default deploy ''desired_replicas'' (SInt 0);
          available = get_default deploy ''available_replicas'' (SInt 0);
          underscaled = fst acc;
          failed_deployments = snd acc
      in (case num_of desired of
            None \<Rightarrow> Inl TypeError
          | Some d \<Rightarrow>
              if 0 < d then
                bind_err (py_lt available d) (\<lambda>below.
                  if below then
                    (if py_eq available (SInt 0)
                     then Inr (underscaled, failed_deployments @ [get deploy ''name''])
                     else Inr (underscaled @ [get deploy ''name''], failed_deployments))
                  else Inr acc)
              else Inr acc))"

fun scan_deployments :: "pydict list \<Rightarrow> scalar list \<times> scalar list \<Rightarrow> error + scalar list \<times> scalar list" where
  "scan_deployments [] acc = Inr acc"
| "scan_deployments (deploy # rest) acc =
     (case deployment_step deploy acc of
        Inl e \<Rightarrow> Inl e
      | Inr acc' \<Rightarrow> scan_deployments rest acc')"

definition zero_availability_issue :: "scalar list \<Rightarrow> Issue" where
  "zero_availability_issue failed_deployments =
     \<lparr>severity = ''critical'',
      category = ''reliability'',
      title = ''Kubernetes Deployments with Zero Availability'',
      description = [FmtInt (int (length failed_deployments)),
                     Lit '' deployments have no available replicas''],
      affected_component = ''Kubernetes Deployments'',
      impact = [Lit ''Services are completely unavailable, causing outages and service disruptions''],
      recommendation = [Lit ''Check deployment status: 'kubectl describe deployment '',
                        (case failed_deployments of [] \<Rightarrow> Lit ''<name>'' | n # _ \<Rightarrow> FmtVal n),
                        Lit (CHR 0x27 # ''. Review pod events, resource limits, and image availability'')],
      confidence = 98 / 100,
      metadata = [(''failed_deployments'', PList (map Scalar failed_deployments))]\<rparr>"

definition underscaled_issue :: "scalar list \<Rightarrow> Issue" where
  "underscaled_issue underscaled =
     \<lparr>severity = ''high'',
      category = ''reliability'',
      title = ''Under-Scaled Kubernetes Deployments'',
      description = [FmtInt (int (length underscaled)),
                     Lit '' deployments running below desired replica count''],
      affected_component = ''Kubernetes Deployments'',
      impact = [Lit ''Reduced capacity and redundancy, potential performance degradation and single points of failure''],
      recommendation = [Lit ''Investigate why replicas aren't starting. Check resource availability, HPA configuration, and pod scheduling constraints''],
      confidence = 88 / 100,
      metadata = [(''underscaled_deployments'', PList (map Scalar underscaled))]\<rparr>"

definition deployment_check :: "pydict list \<Rightarrow> error + Issue list" where
  "deployment_check ds =
     (if ds \<noteq> [] then
        bind_err (scan_deployments ds ([], [])) (\<lambda>(underscaled, failed_deployments).
          Inr ((if failed_deployments \<noteq> [] then [zero_availability_issue failed_deployments] else [])
               @ (if underscaled \<noteq> [] then [underscaled_issue underscaled] else [])))
      else Inr [])"

definition cluster_cpu_issue :: "scalar \<Rightarrow> real \<Rightarrow> Issue" where
  "cluster_cpu_issue cpu_usage_pct x =
     \<lparr>severity = ''high'',
      category = ''performance'',
      title = ''High Kubernetes Cluster CPU Usage'',
      description = [Lit ''Cluster CPU usage at '', FmtFixed 1 x, Lit ''%''],
      affected_component = ''Kubernetes Cluster Resources'',
      impact = [Lit ''High CPU usage may cause throttling, slow response times, and pod scheduling failures''],
      recommendation = [Lit ''Scale cluster nodes, optimize pod resource requests/limits, identify CPU-intensive workloads, consider horizontal pod autoscaling''],
      confidence = 92 / 100,
      metadata = [(''cpu_usage_percent'', Scalar cpu_usage_pct)]\<rparr>"

definition cluster_memory_issue :: "scalar \<Rightarrow> real \<Rightarrow> Issue" where
  "cluster_memory_issue memory_usage_pct x =
     \<lparr>severity = ''high'',
      category = ''performance'',
      title = ''High Kubernetes Cluster Memory Usage'',
      description = [Lit ''Cluster memory usage at '', FmtFixed 1 x, Lit ''%''],
      affected_component = ''Kubernetes Cluster Resources'',
      impact = [Lit ''High memory usage may trigger OOM kills, pod evictions, and prevent new pods from scheduling''],
      recommendation = [Lit ''Scale cluster nodes, review memory requests/limits, investigate memory leaks, enable cluster autoscaling''],
      confidence = 92 / 100,
      metadata = [(''memory_usage_percent'', Scalar memory_usage_pct)]\<rparr>"

text \<open>
  A threshold check on one field of a dict: \<open>v > limit\<close> raises TypeError when \<open>v\<close> is
  not a number; the issue is built from the value and from the number it stands for.
\<close>

definition exceeds_check :: "scalar \<Rightarrow> real \<Rightarrow> (scalar \<Rightarrow> real \<Rightarrow> Issue) \<Rightarrow> error + Issue list" where
  "exceeds_check v limit mk_issue =
     (case num_of v of
        None \<Rightarrow> Inl TypeError
      | Some x \<Rightarrow> Inr (if limit < x then [mk_issue v x] else []))"

definition cluster_usage_check :: "pydict \<Rightarrow> error + Issue list" where
  "cluster_usage_check ru =
     (if ru \<noteq> [] then
        (let cpu_usage_pct = get_default ru ''cpu_usage_percent'' (SInt 0);
             memory_usage_pct = get_default ru ''memory_usage_percent'' (SInt 0)
         in bind_err (exceeds_check cpu_usage_pct 85 cluster_cpu_issue) (\<lambda>cpu_issues.
              bind_err (exceeds_check memory_usage_pct 85 cluster_memory_issue) (\<lambda>memory_issues.
                Inr (cpu_issues @ memory_issues))))
      else Inr [])"

definition pending_pvcs_issue :: "pydict list \<Rightarrow> Issue" where
  "pending_pvcs_issue pending_pvcs =
     \<lparr>severity = ''high'',
      category = ''reliability'',
      title = ''Pending Persistent Volume Claims'',
      description = [FmtInt (int (length pending_pvcs)), Lit '' PVCs unable to bind to volumes''],
      affected_component = ''Kubernetes Storage'',
      impact = [Lit ''Applications requiring persistent storage cannot start, blocking deployments and causing data access issues''],
      recommendation = [Lit ''Check storage class availability, verify volume provisioner is working, ensure sufficient storage capacity in cluster''],
      confidence = 87 / 100,
      metadata = [(''pending_pvcs'', PList (map (\<lambda>p. Scalar (get p ''name'')) pending_pvcs))]\<rparr>"

definition pvc_check :: "pydict list \<Rightarrow> Issue list" where
  "pvc_check ps =
     (if ps \<noteq> [] then
        (let pending_pvcs = filter (\<lambda>p. py_eq (get p ''status'') (SStr ''Pending'')) ps
         in if pending_pvcs \<noteq> [] then [pending_pvcs_issue pending_pvcs] else [])
      else [])"

definition mesh_error_issue :: "scalar \<Rightarrow> real \<Rightarrow> Issue" where
  "mesh_error_issue error_rate x =
     \<lparr>severity = ''high'',
      category = ''reliability'',
      title = ''High Service Mesh Error Rate'',
      description = [Lit ''Service mesh reporting '', FmtPercent 1 x, Lit '' error rate''],
      affected_component = ''Service Mesh'',
      impact = [Lit ''High error rates indicate service communication failures, impacting application reliability''],
      recommendation = [Lit ''Review service mesh metrics, check for misconfigured routes, verify mTLS settings, investigate failing services''],
      confidence = 85 / 100,
      metadata = [(''error_rate'', Scalar error_rate)]\<rparr>"

definition mesh_check :: "pydict \<Rightarrow> error + Issue list" where
  "mesh_check sm =
     (if sm \<noteq> [] then
        exceeds_check (get_default sm ''error_rate'' (SInt 0)) (5 / 100) mesh_error_issue
      else Inr [])"

text \<open>
  \<open>if not k8s_data\<close>: the dict has no key at all. A dict that only has other keys than
  the six sections goes through the six blocks, and each of them finds its section empty.
\<close>

definition no_k8s_data :: "Kubernetes \<Rightarrow> bool" where
  "no_k8s_data k = (pods k = None \<and> nodes k = None \<and> k8s_deployments k = None
                    \<and> resource_usage k = None \<and> pvcs k = None \<and> service_mesh k = None)"

definition analyze_kubernetes :: "Kubernetes \<Rightarrow> error + Issue list" where
  "analyze_kubernetes k8s_data =
     (if no_k8s_data k8s_data then Inr []
      else
        let pod_issues = pod_check (section_list (pods k8s_data));
            node_issues = node_check (section_list (nodes k8s_data))
        in bind_err (deployment_check (section_list (k8s_deployments k8s_data))) (\<lambda>deploy_issues.
             bind_err (cluster_usage_check (section_list (resource_usage k8s_data))) (\<lambda>usage_issues.
               let pvc_issues = pvc_check (section_list (pvcs k8s_data))
               in bind_err (mesh_check (section_list (service_mesh k8s_data))) (\<lambda>mesh_issues.
                    Inr (pod_issues @ node_issues @ deploy_issues @ usage_issues
                         @ pvc_issues @ mesh_issues)))))"

text \<open>\<open>DevOpsAgent.analyze\<close>.\<close>

definition no_resources :: Resources where
  "no_resources = \<lparr>cpu_usage = None, memory_usage = None\<rparr>"

definition no_kubernetes :: Kubernetes where
  "no_kubernetes = \<lparr>pods = None, nodes = None, k8s_deployments = None, resource_usage = None,
                     pvcs = None, service_mesh = None\<rparr>"

definition analyze :: "Batch \<Rightarrow> error + Issue list" where
  "analyze data =
     bind_err (analyze_build_performance (section_list (builds data))) (\<lambda>build_issues.
     bind_err (analyze_test_reliability (section_list (tests data))) (\<lambda>test_issues.
     bind_err (analyze_deployments (section_list (deployments data))) (\<lambda>deployment_issues.
     bind_err (analyze_resource_usage
                 (case resources data of None \<Rightarrow> no_resources | Some r \<Rightarrow> r)) (\<lambda>resource_issues.
     bind_err (analyze_security (section_list (security_scans data))) (\<lambda>security_issues.
     bind_err (analyze_kubernetes
                 (case kubernetes data of None \<Rightarrow> no_kubernetes | Some k \<Rightarrow> k)) (\<lambda>k8s_issues.
       Inr (prioritize_issues (build_issues @ test_issues @ deployment_issues @ resource_issues
                               @ security_issues @ k8s_issues))))))))"

text \<open>A batch that has a builds section and no other section.\<close>

definition only_builds :: "pydict list \<Rightarrow> Batch" where
  "only_builds bs = \<lparr>builds = Some bs, tests = None, deployments = None, resources = None,
                      security_scans = None, kubernetes = None\<rparr>"

section \<open>The ML-pipeline analyzer\<close>

text \<open>
  \<open>sorted(xs, key=key)\<close> on flat keys. Python orders strings with strings (by code
  points) and numbers with numbers, and \<open><\<close> raises TypeError on any other pair of flat
  values; a list of at most one element is returned without a comparison, and in a longer
  list every element is compared with another one. The sort is stable.
\<close>

definition str_of :: "scalar \<Rightarrow> string option" where
  "str_of v = (case v of SStr s \<Rightarrow> Some s | _ \<Rightarrow> None)"

definition py_sorted :: "(pydict \<Rightarrow> scalar) \<Rightarrow> pydict list \<Rightarrow> error + pydict list" where
  "py_sorted key xs =
     (if length xs \<le> 1 then Inr xs
      else if list_all (\<lambda>x. str_of (key x) \<noteq> None) xs
        then Inr (sort_key (\<lambda>x. the (str_of (key x))) xs)
      else if list_all (\<lambda>x. num_of (key x) \<noteq> None) xs
        then Inr (sort_key (\<lambda>x. the (num_of (key x))) xs)
      else Inl TypeError)"

text \<open>
  \<open>statistics.mean(vs)\<close>: StatisticsError on the empty list, TypeError on a value that
  is not a number; the result is an int when no value is a float and the mean is a whole
  number, and a float otherwise. \<open>a - b\<close> on two such results is an int when both are.
\<close>

definition is_float :: "scalar \<Rightarrow> bool" where
  "is_float v = (case v of SFloat r \<Rightarrow> True | _ \<Rightarrow> False)"

definition py_mean :: "scalar list \<Rightarrow> error + scalar" where
  "py_mean vs =
     (if vs = [] then Inl StatisticsError
      else bind_err (py_sum vs) (\<lambda>total.
             let m = total / real (length vs)
             in Inr (if list_ex is_float vs \<or> real_of_int \<lfloor>m\<rfloor> \<noteq> m
                     then SFloat m else SInt \<lfloor>m\<rfloor>)))"

definition num :: "scalar \<Rightarrow> real" where
  "num v = (case num_of v of None \<Rightarrow> 0 | Some x \<Rightarrow> x)"

definition py_sub :: "scalar \<Rightarrow> scalar \<Rightarrow> scalar" where
  "py_sub a b = (if is_float a \<or> is_float b then SFloat (num a - num b)
                 else SInt (\<lfloor>num a\<rfloor> - \<lfloor>num b\<rfloor>))"

text \<open>\<open>MLOpsAgent._analyze_model_performance\<close> with the thresholds of \<open>_load_metric_thresholds\<close>.\<close>

definition accuracy_drop_threshold :: real where
  "accuracy_drop_threshold = 5 / 100"

definition f1_score_threshold :: real where
  "f1_score_threshold = 7 / 10"

definition degradation_issue :: "scalar \<Rightarrow> scalar \<Rightarrow> scalar \<Rightarrow> Issue" where
  "degradation_issue recent_accuracy older_accuracy accuracy_drop =
     \<lparr>severity = ''high'',
      category = ''quality'',
      title = ''Model Performance Degradation Detected'',
      description = [Lit ''Model accuracy dropped by '', FmtPercent 1 (num accuracy_drop),
                     Lit '' from '', FmtPercent 2 (num older_accuracy), Lit '' to '',
                     FmtPercent 2 (num recent_accuracy)],
      affected_component = ''ML Model'',
      impact = [Lit ''Degraded model performance affects prediction quality and business outcomes''],
      recommendation = [Lit ''Investigate data drift, retrain model with recent data, review feature engineering, check for concept drift''],
      confidence = 88 / 100,
      metadata = [(''recent_accuracy'', Scalar recent_accuracy),
                  (''older_accuracy'', Scalar older_accuracy),
                  (''drop'', Scalar accuracy_drop)]\<rparr>"

definition low_f1_issue :: "scalar \<Rightarrow> real \<Rightarrow> scalar \<Rightarrow> Issue" where
  "low_f1_issue f1_score x accuracy =
     \<lparr>severity = ''medium'',
      category = ''quality'',
      title = ''Low Model F1 Score'',
      description = [Lit ''Current F1 score is '', FmtFixed 2 x, Lit '', below threshold of '',
                     FmtVal (SFloat f1_score_threshold)],
      affected_component = ''ML Model'',
      impact = [Lit ''Low F1 score indicates poor balance between precision and recall''],
      recommendation = [Lit ''Review class imbalance, adjust decision threshold, improve feature selection, collect more training data for underrepresented classes''],
      confidence = 85 / 100,
      metadata = [(''f1_score'', Scalar f1_score), (''accuracy'', Scalar accuracy)]\<rparr>"

text \<open>
  The two windows of the trend check: \<open>sorted_metrics[-5:]\<close>, and
  \<open>sorted_metrics[-10:-5]\<close> when there are at least 10 points, \<open>sorted_metrics[:-5]\<close>
  otherwise.
\<close>

definition recent_window :: "'a list \<Rightarrow> 'a list" where
  "recent_window sorted_metrics = drop (length sorted_metrics - 5) sorted_metrics"

definition older_window :: "'a list \<Rightarrow> 'a list" where
  "older_window sorted_metrics =
     (if 10 \<le> length sorted_metrics
      then take 5 (drop (length sorted_metrics - 10) sorted_metrics)
      else take (length sorted_metrics - 5) sorted_metrics)"

definition degradation_check :: "pydict list \<Rightarrow> error + Issue list" where
  "degradation_check sorted_metrics =
     (if 2 \<le> length sorted_metrics then
        (let recent_metrics = recent_window sorted_metrics;
             older_metrics = older_window sorted_metrics
         in if older_metrics \<noteq> [] \<and> recent_metrics \<noteq> [] then
              bind_err (py_mean (map (\<lambda>m. get_default m ''accuracy'' (SInt 0)) recent_metrics))
                (\<lambda>recent_accuracy.
              bind_err (py_mean (map (\<lambda>m. get_default m ''accuracy'' (SInt 0)) older_metrics))
                (\<lambda>older_accuracy.
                  let accuracy_drop = py_sub older_accuracy recent_accuracy
                  in bind_err (py_gt accuracy_drop accuracy_drop_threshold) (\<lambda>dropped.
                       Inr (if dropped
                            then [degradation_issue recent_accuracy older_accuracy accuracy_drop]
                            else []))))
            else Inr [])
      else Inr [])"

definition low_f1_check :: "pydict \<Rightarrow> error + Issue list" where
  "low_f1_check latest_metrics =
     (let accuracy = get_default latest_metrics ''accuracy'' (SInt 0);
          f1_score = get_default latest_metrics ''f1_score'' (SInt 0)
      in (case num_of f1_score of
            None \<Rightarrow> Inl TypeError
          | Some x \<Rightarrow> Inr (if x < f1_score_threshold then [low_f1_issue f1_score x accuracy]
                           else [])))"

definition analyze_model_performance :: "pydict list \<Rightarrow> error + Issue list" where
  "analyze_model_performance model_metrics =
     (if model_metrics = [] \<or> length model_metrics < 2 then Inr []
      else
        bind_err (py_sorted (\<lambda>x. get_default x ''timestamp'' (SStr [])) model_metrics)
          (\<lambda>sorted_metrics.
             bind_err (degradation_check sorted_metrics) (\<lambda>issues.
               bind_err (low_f1_check (last sorted_metrics)) (\<lambda>f1_issues.
                 Inr (issues @ f1_issues)))))"

section \<open>Notions of the specification\<close>

text \<open>
  The words of the specification, written without the loops of the code. A test run
  belongs to the test named \<open>n\<close> when its name is the string \<open>n\<close>, and it has passed when
  its status is \<open>passed\<close>; \<open>runs\<close> and \<open>fails\<close> count the runs of a test and its runs
  that have not passed. A name is a string, or a value that \<open>if test_name:\<close> skips.
\<close>

definition named :: "string \<Rightarrow> pydict \<Rightarrow> bool" where
  "named n t = (get t ''name'' = SStr n)"

definition passed :: "pydict \<Rightarrow> bool" where
  "passed t = py_eq (get t ''status'') (SStr ''passed'')"

definition runs :: "pydict list \<Rightarrow> string \<Rightarrow> nat" where
  "runs ts n = length (filter (named n) ts)"

definition fails :: "pydict list \<Rightarrow> string \<Rightarrow> nat" where
  "fails ts n = length (filter (\<lambda>t. named n t \<and> \<not> passed t) ts)"

definition str_or_falsy :: "scalar \<Rightarrow> bool" where
  "str_or_falsy v = (case v of SStr s \<Rightarrow> True | _ \<Rightarrow> \<not> truthy v)"

text \<open>
  The durations of the successful builds as numbers, the average of a list of numbers and
  the number of failed builds.
\<close>

definition success_durations :: "pydict list \<Rightarrow> real list" where
  "success_durations bs =
     map (\<lambda>b. the (num_of (get_default b ''duration'' (SInt 0))))
         (filter (\<lambda>b. get b ''status'' = SStr ''success'') bs)"

definition average :: "real list \<Rightarrow> real" where
  "average xs = sum_list xs / real (length xs)"

definition failed_count :: "pydict list \<Rightarrow> nat" where
  "failed_count bs = length (filter (\<lambda>b. get b ''status'' = SStr ''failed'') bs)"

text \<open>
  The names of a list of flaky tests as the report lists them: the strings joined by a
  separator, \<open>joined sep [a, b, c] = a @ sep @ b @ sep @ c\<close>; \<open>name_str\<close> is the
  string of a name that is a string.
\<close>

fun joined :: "string \<Rightarrow> string list \<Rightarrow> string" where
  "joined sep [] = []"
| "joined sep [s] = s"
| "joined sep (s # t # ts) = s @ sep @ joined sep (t # ts)"

definition name_str :: "scalar \<Rightarrow> string" where
  "name_str v = (case v of SStr s \<Rightarrow> s | _ \<Rightarrow> [])"


text \<open>
  The key by which the metric points are sorted in time, and the title of the
  accuracy-degradation issue.
\<close>

definition timestamp_key :: "pydict \<Rightarrow> scalar" where
  "timestamp_key x = get_default x ''timestamp'' (SStr [])"

definition degradation_title :: string where
  "degradation_title = ''Model Performance Degradation Detected''"

section \<open>Auxiliary notions for the proofs\<close>

text \<open>
  One round of the first loop of \<open>_analyze_test_reliability\<close>, the counters of a test
  name in \<open>test_results\<close>, an increment of them, and the condition under which the
  second loop classifies an entry as flaky.
\<close>

definition bump :: "bool \<Rightarrow> nat \<times> nat \<Rightarrow> nat \<times> nat" where
  "bump ok pf = (if ok then (fst pf + 1, snd pf) else (fst pf, snd pf + 1))"

definition tally :: "(scalar \<times> nat \<times> nat) list \<Rightarrow> scalar \<Rightarrow> nat \<times> nat" where
  "tally rs k = (case map_of rs k of None \<Rightarrow> (0, 0) | Some pf \<Rightarrow> pf)"

definition test_step :: "pydict \<Rightarrow> (scalar \<times> nat \<times> nat) list \<Rightarrow> (scalar \<times> nat \<times> nat) list" where
  "test_step test results =
     (let test_name = get test ''name''
      in if truthy test_name
         then record_test test_name (py_eq (get test ''status'') (SStr ''passed'')) results
         else results)"

definition is_flaky :: "scalar \<times> nat \<times> nat \<Rightarrow> bool" where
  "is_flaky e = (case e of (k, p, f) \<Rightarrow>
     1 < p + f \<and> 0 < f \<and> 0 < p \<and> 1 / 10 < real f / real (p + f) \<and> real f / real (p + f) < 9 / 10)"

section \<open>Example findings\<close>

text \<open>A finding with the given severity, category, title and confidence and empty texts.\<close>

definition finding :: "string \<Rightarrow> string \<Rightarrow> string \<Rightarrow> real \<Rightarrow> Issue" where
  "finding sev cat t c = \<lparr>severity = sev, category = cat, title = t, description = [],
     affected_component = [], impact = [], recommendation = [], confidence = c, metadata = []\<rparr>"

text \<open>
  A successful build with a duration, a successful build whose duration is not a number, a
  batch with no section at all, and a run of a test with a name and a status.
\<close>

definition ok_build :: "int \<Rightarrow> pydict" where
  "ok_build d = [(''status'', SStr ''success''), (''duration'', SInt d)]"



definition test_run :: "string \<Rightarrow> string \<Rightarrow> pydict" where
  "test_run n s = [(''name'', SStr n), (''status'', SStr s)]"

text \<open>
  A metric point with a timestamp, an accuracy and an F1 score, and three histories: three
  points whose accuracy falls from 0.9 to 0.1, six points whose accuracy falls from 0.9 to
  0.8 after the first, and two points of which the later has an F1 score of 0.5.
\<close>

definition metric_point :: "string \<Rightarrow> real \<Rightarrow> real \<Rightarrow> pydict" where
  "metric_point ts acc f1 =
     [(''timestamp'', SStr ts), (''accuracy'', SFloat acc), (''f1_score'', SFloat f1)]"

definition three_points :: "pydict list" where
  "three_points = [metric_point ''2024-01-03'' (1 / 10) (9 / 10),
                   metric_point ''2024-01-01'' (9 / 10) (9 / 10),
                   metric_point ''2024-01-02'' (9 / 10) (9 / 10)]"

definition six_points :: "pydict list" where
  "six_points = [metric_point ''2024-01-06'' (8 / 10) (9 / 10),
                 metric_point ''2024-01-01'' (9 / 10) (9 / 10),
                 metric_point ''2024-01-02'' (8 / 10) (9 / 10),
                 metric_point ''2024-01-03'' (8 / 10) (9 / 10),
                 metric_point ''2024-01-04'' (8 / 10) (9 / 10),
                 metric_point ''2024-01-05'' (8 / 10) (9 / 10)]"

definition two_points :: "pydict list" where
  "two_points = [metric_point ''2024-01-02'' (9 / 10) (1 / 2),
                 metric_point ''2024-01-01'' (9 / 10) (9 / 10)]"

text \<open>
  Four tests with two runs each, of which one has passed and the other has not (the
  second run of \<open>tc\<close> is skipped), and a batch with two slow builds whose other sections
  are missing or empty.
\<close>

definition four_flaky :: "pydict list" where
  "four_flaky = [test_run ''ta'' ''passed'', test_run ''tb'' ''failed'',
                 test_run ''tc'' ''passed'', test_run ''td'' ''passed'',
                 test_run ''ta'' ''failed'', test_run ''tb'' ''passed'',
                 test_run ''tc'' ''skipped'', test_run ''td'' ''failed'']"


section \<open>Properties of the shared base\<close>

lemma sorted_reverse_mset: "mset (sorted_reverse key xs) = mset xs"
  by (simp add: sorted_reverse_def)

lemma sorted_reverse_descending:
  "sorted_wrt (\<lambda>a b. key b \<le> key a) (sorted_reverse key xs)"
proof -
  have "sorted (map key (sort_key key (rev xs)))"
    by simp
  then have "sorted_wrt (\<lambda>a b. key a \<le> key b) (sort_key key (rev xs))"
    by (simp add: sorted_map)
  then show ?thesis
    by (simp add: sorted_reverse_def sorted_wrt_rev)
qed

lemma sorted_reverse_stable:
  "filter (\<lambda>x. key x = k) (sorted_reverse key xs) = filter (\<lambda>x. key x = k) xs"
proof -
  have "filter (\<lambda>x. key x = k) (sorted_reverse key xs)
        = rev (filter (\<lambda>x. key x = k) (sort_key key (rev xs)))"
    by (simp add: sorted_reverse_def rev_filter)
  also have "\<dots> = rev (filter (\<lambda>x. key x = k) (rev xs))"
    by (simp only: sort_key_stable)
  also have "\<dots> = filter (\<lambda>x. key x = k) xs"
    by (simp add: rev_filter)
  finally show ?thesis .
qed

lemma sorted_reverse_idem:
  "sorted_reverse key (sorted_reverse key xs) = sorted_reverse key xs"
proof -
  have "sort_key key (sort_key key (rev xs)) = sort_key key (rev xs)"
    by (rule sort_key_id_if_sorted) simp
  then show ?thesis
    by (simp add: sorted_reverse_def)
qed

lemma sorted_reverse_filter:
  "filter P (sorted_reverse key xs) = sorted_reverse key (filter P xs)"
proof -
  have "filter P (rev (sort_key key (rev xs))) = rev (filter P (sort_key key (rev xs)))"
    by (simp only: rev_filter)
  also have "\<dots> = rev (sort_key key (filter P (rev xs)))"
    by (simp only: filter_sort)
  also have "\<dots> = rev (sort_key key (rev (filter P xs)))"
    by (simp only: rev_filter)
  finally show ?thesis
    by (simp only: sorted_reverse_def)
qed

lemma prio_key_le:
  "prio_key b \<le> prio_key a \<longleftrightarrow>
     severity_rank (severity b) < severity_rank (severity a)
     \<or> (severity_rank (severity b) = severity_rank (severity a) \<and> confidence b \<le> confidence a)"
  by (auto simp: prio_key_def less_eq_prod_def)

lemma severity_rank_table:
  "severity_rank ''critical'' = 4" "severity_rank ''high'' = 3"
  "severity_rank ''medium'' = 2" "severity_rank ''low'' = 1"
  by (simp_all add: severity_rank_def severity_order_def)

lemma severity_rank_unrecognized:
  "s \<notin> set [''critical'', ''high'', ''medium'', ''low''] \<Longrightarrow> severity_rank s = 0"
  by (simp add: severity_rank_def severity_order_def)

lemma severity_rank_recognized:
  "s \<in> set [''critical'', ''high'', ''medium'', ''low''] \<Longrightarrow> 0 < severity_rank s"
  by (auto simp: severity_rank_def severity_order_def)

lemma sorted_wrt_split:
  assumes "sorted_wrt R xs" and "\<And>a b. R a b \<Longrightarrow> \<not> P a \<Longrightarrow> \<not> P b"
  shows "xs = filter P xs @ filter (\<lambda>x. \<not> P x) xs"
  using assms(1)
proof (induction xs)
  case Nil
  then show ?case by simp
next
  case (Cons x xs)
  show ?case
  proof (cases "P x")
    case True
    with Cons show ?thesis by simp
  next
    case False
    with Cons.prems assms(2) have "\<forall>y \<in> set xs. \<not> P y"
      by auto
    then have "filter P xs = []" "filter (\<lambda>x. \<not> P x) xs = xs"
      by (simp_all add: filter_empty_conv)
    with False show ?thesis by simp
  qed
qed

text \<open>
  C1. For every list of issues, prioritization returns a permutation of the list, sorted
  in descending order of the pair (severity rank, confidence): a later issue has a smaller
  rank, or the same rank and a confidence at most as large. The ranks come from the fixed
  table critical 4, high 3, medium 2, low 1. Issues with the same rank and the same
  confidence keep their original relative order, and prioritizing twice is the same as
  prioritizing once.
\<close>

theorem prioritize_issues_sorted_permutation:
  "mset (prioritize_issues I) = mset I
   \<and> sorted_wrt (\<lambda>a b. severity_rank (severity b) < severity_rank (severity a)
                    \<or> (severity_rank (severity b) = severity_rank (severity a)
                        \<and> confidence b \<le> confidence a)) (prioritize_issues I)
   \<and> severity_rank ''critical'' = 4 \<and> severity_rank ''high'' = 3
   \<and> severity_rank ''medium'' = 2 \<and> severity_rank ''low'' = 1
   \<and> (\<forall>r c. filter (\<lambda>x. severity_rank (severity x) = r \<and> confidence x = c) (prioritize_issues I)
            = filter (\<lambda>x. severity_rank (severity x) = r \<and> confidence x = c) I)
   \<and> prioritize_issues (prioritize_issues I) = prioritize_issues I"
proof -
  have perm: "mset (prioritize_issues I) = mset I"
    by (simp add: prioritize_issues_def sorted_reverse_mset)
  have "sorted_wrt (\<lambda>a b. prio_key b \<le> prio_key a) (prioritize_issues I)"
    unfolding prioritize_issues_def by (rule sorted_reverse_descending)
  then have desc: "sorted_wrt (\<lambda>a b. severity_rank (severity b) < severity_rank (severity a)
                    \<or> (severity_rank (severity b) = severity_rank (severity a)
                        \<and> confidence b \<le> confidence a)) (prioritize_issues I)"
    by (simp only: prio_key_le)
  have stable: "filter (\<lambda>x. severity_rank (severity x) = r \<and> confidence x = c) (prioritize_issues I)
            = filter (\<lambda>x. severity_rank (severity x) = r \<and> confidence x = c) I" for r c
    using sorted_reverse_stable [of prio_key "(r, c)" I]
    by (simp add: prioritize_issues_def prio_key_def)
  have idem: "prioritize_issues (prioritize_issues I) = prioritize_issues I"
    by (simp add: prioritize_issues_def sorted_reverse_idem)
  from perm desc stable idem show ?thesis
    by (simp add: severity_rank_table)
qed

text \<open>
  C2. For every evidence mapping, the confidence is the sum of weight times evidence over
  the keys of the weight table that the mapping has (pattern_match 0.3,
  statistical_significance 0.4, historical_data 0.3; an absent key adds zero), clamped to
  the interval from 0 to 1. So the result always lies in that interval, the empty mapping
  gives 0, and a sum of 1 or more gives 1.
\<close>

theorem calculate_confidence_clamped_sum:
  "calculate_confidence E
     = min (max ((case E ''pattern_match'' of None \<Rightarrow> 0 | Some v \<Rightarrow> 3 / 10 * v)
               + (case E ''statistical_significance'' of None \<Rightarrow> 0 | Some v \<Rightarrow> 4 / 10 * v)
               + (case E ''historical_data'' of None \<Rightarrow> 0 | Some v \<Rightarrow> 3 / 10 * v)) 0) 1
   \<and> 0 \<le> calculate_confidence E \<and> calculate_confidence E \<le> 1
   \<and> calculate_confidence Map.empty = 0
   \<and> (1 \<le> (case E ''pattern_match'' of None \<Rightarrow> 0 | Some v \<Rightarrow> 3 / 10 * v)
          + (case E ''statistical_significance'' of None \<Rightarrow> 0 | Some v \<Rightarrow> 4 / 10 * v)
          + (case E ''historical_data'' of None \<Rightarrow> 0 | Some v \<Rightarrow> 3 / 10 * v)
        \<longrightarrow> calculate_confidence E = 1)"
  by (auto simp: calculate_confidence_def weights_def Let_def split: option.splits)

theorem calculate_confidence_clamped_sum_witness:
  "calculate_confidence [''pattern_match'' \<mapsto> 2, ''statistical_significance'' \<mapsto> 3] = 1
   \<and> calculate_confidence [''historical_data'' \<mapsto> 1 / 2] = 3 / 20
   \<and> calculate_confidence [''pattern_match'' \<mapsto> - 1] = 0"
  using calculate_confidence_clamped_sum [of "[''pattern_match'' \<mapsto> 2, ''statistical_significance'' \<mapsto> 3]"]
    calculate_confidence_clamped_sum [of "[''historical_data'' \<mapsto> 1 / 2]"]
    calculate_confidence_clamped_sum [of "[''pattern_match'' \<mapsto> - 1]"]
  by simp

text \<open>
  C9. An issue whose severity is outside the fixed vocabulary has rank 0. Prioritization
  keeps every issue of the list (it rejects nothing), puts every issue with a recognized
  severity before every issue with an unrecognized one, and orders the recognized issues
  exactly as it would order them alone.
\<close>

theorem prioritize_issues_unrecognized_last:
  "(\<forall>x. \<not> recognized x \<longrightarrow> severity_rank (severity x) = 0)
   \<and> (\<forall>x. recognized x \<longrightarrow> 0 < severity_rank (severity x))
   \<and> mset (prioritize_issues I) = mset I
   \<and> prioritize_issues I = filter recognized (prioritize_issues I)
                            @ filter (\<lambda>x. \<not> recognized x) (prioritize_issues I)
   \<and> filter recognized (prioritize_issues I) = prioritize_issues (filter recognized I)"
proof -
  have r0: "\<not> recognized x \<Longrightarrow> severity_rank (severity x) = 0" for x
    unfolding recognized_def by (rule severity_rank_unrecognized)
  have r1: "recognized x \<Longrightarrow> 0 < severity_rank (severity x)" for x
    unfolding recognized_def by (rule severity_rank_recognized)
  have desc: "sorted_wrt (\<lambda>a b. prio_key b \<le> prio_key a) (prioritize_issues I)"
    unfolding prioritize_issues_def by (rule sorted_reverse_descending)
  have step: "\<not> recognized b" if "prio_key b \<le> prio_key a" "\<not> recognized a" for a b
  proof
    assume "recognized b"
    then have "0 < severity_rank (severity b)" by (rule r1)
    moreover from that(2) have "severity_rank (severity a) = 0" by (rule r0)
    ultimately show False using that(1) by (simp add: prio_key_le)
  qed
  have split: "prioritize_issues I = filter recognized (prioritize_issues I)
                            @ filter (\<lambda>x. \<not> recognized x) (prioritize_issues I)"
    using desc step by (rule sorted_wrt_split)
  have comm: "filter recognized (prioritize_issues I) = prioritize_issues (filter recognized I)"
    by (simp add: prioritize_issues_def sorted_reverse_filter)
  have perm: "mset (prioritize_issues I) = mset I"
    by (simp add: prioritize_issues_def sorted_reverse_mset)
  from r0 r1 split comm perm show ?thesis by blast
qed

theorem prioritize_issues_unrecognized_last_witness:
  "\<not> recognized (finding ''urgent'' ''cost'' ''A'' (99 / 100))
   \<and> recognized (finding ''low'' ''cost'' ''B'' (1 / 10))
   \<and> severity_rank (severity (finding ''urgent'' ''cost'' ''A'' (99 / 100))) = 0
   \<and> 0 < severity_rank (severity (finding ''low'' ''cost'' ''B'' (1 / 10)))
   \<and> prioritize_issues [finding ''urgent'' ''cost'' ''A'' (99 / 100), finding ''low'' ''cost'' ''B'' (1 / 10)]
       = [finding ''low'' ''cost'' ''B'' (1 / 10), finding ''urgent'' ''cost'' ''A'' (99 / 100)]"
proof -
  let ?u = "finding ''urgent'' ''cost'' ''A'' (99 / 100)"
  let ?l = "finding ''low'' ''cost'' ''B'' (1 / 10)"
  have u: "\<not> recognized ?u" and l: "recognized ?l"
    by (simp_all add: recognized_def finding_def)
  from prioritize_issues_unrecognized_last [of "[?u, ?l]"]
  have r: "severity_rank (severity ?u) = 0" "0 < severity_rank (severity ?l)"
    using u l by blast+
  have p: "prioritize_issues [?u, ?l] = [?l, ?u]"
    by (simp add: prioritize_issues_def sorted_reverse_def prio_key_def severity_rank_def
        severity_order_def finding_def less_eq_prod_def)
  from u l r p show ?thesis by simp
qed

section \<open>Properties of the correlator\<close>

lemma count_category_map_of:
  "map_of (count_category i cs) c =
     (if c = category i then Some ((case map_of cs c of None \<Rightarrow> 0 | Some n \<Rightarrow> n) + 1)
      else map_of cs c)"
  by (simp add: count_category_def update_conv')

lemma count_category_distinct:
  "distinct (map fst cs) \<Longrightarrow> distinct (map fst (count_category i cs))"
  by (simp add: count_category_def distinct_update)

lemma fold_count_distinct:
  "distinct (map fst cs) \<Longrightarrow> distinct (map fst (fold count_category I cs))"
  by (induction I arbitrary: cs) (simp_all add: count_category_distinct)

lemma fold_count_map_of:
  "(case map_of (fold count_category I cs) c of None \<Rightarrow> 0 | Some n \<Rightarrow> n)
     = (case map_of cs c of None \<Rightarrow> 0 | Some n \<Rightarrow> n) + length (filter (\<lambda>i. category i = c) I)"
proof (induction I arbitrary: cs)
  case Nil
  then show ?case by simp
next
  case (Cons i I)
  show ?case
    by (simp add: Cons.IH count_category_map_of)
qed

lemma systemic_count_distinct:
  assumes "distinct (map fst cs)"
  shows "length (filter (\<lambda>x. category x = c)
           (concat (map (\<lambda>(cat, cnt). if 5 \<le> cnt then [systemic_issue cat cnt] else []) cs)))
         = (if 5 \<le> (case map_of cs c of None \<Rightarrow> 0 | Some n \<Rightarrow> n) then 1 else 0)"
  using assms
proof (induction cs)
  case Nil
  then show ?case by simp
next
  case (Cons p cs)
  obtain k n where p: "p = (k, n)" by (cases p)
  from Cons.prems p have k: "k \<notin> fst ` set cs" and d: "distinct (map fst cs)"
    by simp_all
  show ?case
  proof (cases "k = c")
    case True
    with k have "map_of cs c = None"
      by (simp add: map_of_eq_None_iff)
    with Cons.IH [OF d] True p show ?thesis
      by (simp add: systemic_issue_def)
  next
    case False
    with Cons.IH [OF d] p show ?thesis
      by (simp add: systemic_issue_def)
  qed
qed

lemma systemic_all:
  "list_all (\<lambda>x. severity x = ''high'' \<and> confidence x = 75 / 100)
     (concat (map (\<lambda>(cat, cnt). if 5 \<le> cnt then [systemic_issue cat cnt] else []) cs))"
  by (induction cs) (auto simp: systemic_issue_def)

text \<open>
  C6. For every list of issues, the cascading-failure check returns exactly one issue, of
  severity critical, category reliability and confidence 0.85, whose metadata records the
  number of build failures and of deployment failures, if the list has an issue whose
  lower-cased title contains "build" with severity high or critical and an issue whose
  lower-cased title contains "deployment"; otherwise it returns no issue.
\<close>

theorem detect_cascading_failures_iff:
  "detect_cascading_failures I
     = (if (\<exists>i \<in> set I. sublist ''build'' (py_lower (title i))
                          \<and> (severity i = ''high'' \<or> severity i = ''critical''))
           \<and> (\<exists>i \<in> set I. sublist ''deployment'' (py_lower (title i)))
        then [\<lparr>severity = ''critical'',
             category = ''reliability'',
             title = ''Cascading Failures Detected'',
             description = [Lit ''Build failures ('', FmtInt (int (length (filter is_build_failure I))),
                            Lit '') are likely causing deployment issues ('',
                            FmtInt (int (length (filter is_deployment_failure I))), Lit '')''],
             affected_component = ''CI/CD Pipeline'',
             impact = [Lit ''Build failures block deployments, creating a bottleneck in the release process''],
             recommendation = [Lit ''Fix build issues first: address test failures, resolve dependency conflicts, improve build stability''],
             confidence = 85 / 100,
             metadata = [(''build_failures'', Scalar (SInt (int (length (filter is_build_failure I))))),
                         (''deployment_failures'', Scalar (SInt (int (length (filter is_deployment_failure I)))))]\<rparr>]
        else [])"
  by (auto simp: detect_cascading_failures_def Let_def filter_empty_conv is_build_failure_def
      is_deployment_failure_def)

theorem detect_cascading_failures_iff_witness:
  "length (detect_cascading_failures
      [finding ''high'' ''reliability'' ''High Build Failure Rate'' (95 / 100),
       finding ''critical'' ''reliability'' ''High Deployment Failure Rate'' (92 / 100)]) = 1
   \<and> detect_cascading_failures
      [finding ''high'' ''reliability'' ''High Build Failure Rate'' (95 / 100)] = []
   \<and> detect_cascading_failures
      [finding ''critical'' ''reliability'' ''High Deployment Failure Rate'' (92 / 100)] = []
   \<and> detect_cascading_failures
      [finding ''medium'' ''performance'' ''Slow Build Times'' (9 / 10),
       finding ''critical'' ''reliability'' ''High Deployment Failure Rate'' (92 / 100)] = []"
  using detect_cascading_failures_iff [of
      "[finding ''high'' ''reliability'' ''High Build Failure Rate'' (95 / 100),
        finding ''critical'' ''reliability'' ''High Deployment Failure Rate'' (92 / 100)]"]
    detect_cascading_failures_iff [of
      "[finding ''high'' ''reliability'' ''High Build Failure Rate'' (95 / 100)]"]
    detect_cascading_failures_iff [of
      "[finding ''critical'' ''reliability'' ''High Deployment Failure Rate'' (92 / 100)]"]
    detect_cascading_failures_iff [of
      "[finding ''medium'' ''performance'' ''Slow Build Times'' (9 / 10),
        finding ''critical'' ''reliability'' ''High Deployment Failure Rate'' (92 / 100)]"]
  by (simp add: finding_def py_lower_def lower_char_def ascii_upper_def ascii_lower_def
      sublist_code prefix_code)

text \<open>
  C7. For every list of issues and every category, the systemic check returns exactly one
  issue of that category if the list has at least 5 issues of the category, and none of
  that category otherwise; every issue it returns has severity high and confidence 0.75.
\<close>

theorem detect_systemic_issues_per_category:
  "length (filter (\<lambda>x. category x = c) (detect_systemic_issues I))
     = (if 5 \<le> length (filter (\<lambda>i. category i = c) I) then 1 else 0)
   \<and> list_all (\<lambda>x. severity x = ''high'' \<and> confidence x = 75 / 100) (detect_systemic_issues I)"
proof -
  have d: "distinct (map fst (fold count_category I []))"
    by (rule fold_count_distinct) simp
  have m: "(case map_of (fold count_category I []) c of None \<Rightarrow> 0 | Some n \<Rightarrow> n)
           = length (filter (\<lambda>i. category i = c) I)"
    using fold_count_map_of [of I "[]" c] by simp
  show ?thesis
    using systemic_count_distinct [OF d, of c] systemic_all [of "fold count_category I []"]
    by (simp add: detect_systemic_issues_def m)
qed

theorem detect_systemic_issues_per_category_witness:
  "length (filter (\<lambda>x. category x = ''performance'')
      (detect_systemic_issues (replicate 5 (finding ''low'' ''performance'' ''Slow'' (1 / 2))
                               @ replicate 4 (finding ''low'' ''cost'' ''Cost'' (1 / 2))))) = 1
   \<and> length (filter (\<lambda>x. category x = ''cost'')
      (detect_systemic_issues (replicate 5 (finding ''low'' ''performance'' ''Slow'' (1 / 2))
                               @ replicate 4 (finding ''low'' ''cost'' ''Cost'' (1 / 2))))) = 0"
  using detect_systemic_issues_per_category [of "''performance''"
      "replicate 5 (finding ''low'' ''performance'' ''Slow'' (1 / 2))
       @ replicate 4 (finding ''low'' ''cost'' ''Cost'' (1 / 2))"]
    detect_systemic_issues_per_category [of "''cost''"
      "replicate 5 (finding ''low'' ''performance'' ''Slow'' (1 / 2))
       @ replicate 4 (finding ''low'' ''cost'' ''Cost'' (1 / 2))"]
  by (simp add: finding_def)

section \<open>Properties of the delivery-pipeline analyzer\<close>

lemma py_eq_SStr [simp]: "py_eq v (SStr s) \<longleftrightarrow> v = SStr s"
  by (cases v) (simp_all add: py_eq_def num_of_def)

lemma bind_err_simps [simp]:
  "bind_err (Inl e) f = Inl e" "bind_err (Inr x) f = f x"
  by (simp_all add: bind_err_def)

lemma record_test_map_of:
  "map_of (record_test (SStr n) ok rs) k
     = (if k = SStr n then Some (bump ok (tally rs k)) else map_of rs k)"
  by (induction "SStr n" ok rs rule: record_test.induct) (auto simp: bump_def tally_def)

lemma record_test_keys:
  "fst ` set (record_test (SStr n) ok rs) = insert (SStr n) (fst ` set rs)"
  by (induction "SStr n" ok rs rule: record_test.induct) auto

lemma record_test_distinct:
  "distinct (map fst rs) \<Longrightarrow> distinct (map fst (record_test (SStr n) ok rs))"
proof (induction "SStr n" ok rs rule: record_test.induct)
  case (1 ok)
  then show ?case by simp
next
  case (2 ok k p f rest)
  then show ?case
    by (auto simp: record_test_keys)
qed

lemma test_results_fold: "test_results ts = fold test_step ts []"
  by (simp add: test_results_def test_step_def [abs_def])

lemma test_step_cases:
  assumes "str_or_falsy (get t ''name'')"
  shows "(\<exists>s. s \<noteq> [] \<and> get t ''name'' = SStr s \<and> test_step t rs = record_test (SStr s) (passed t) rs)
         \<or> ((\<forall>s. s \<noteq> [] \<longrightarrow> \<not> named s t) \<and> test_step t rs = rs)"
  using assms
  by (cases "get t ''name''")
     (auto simp: str_or_falsy_def test_step_def truthy_def named_def passed_def)

lemma test_step_tally:
  assumes "str_or_falsy (get t ''name'')" and "n \<noteq> []"
  shows "tally (test_step t rs) (SStr n)
           = (if named n t then bump (passed t) (tally rs (SStr n)) else tally rs (SStr n))"
  using test_step_cases [OF assms(1), of rs] assms(2)
  by (auto simp: tally_def record_test_map_of named_def)

lemma test_step_keys:
  assumes "str_or_falsy (get t ''name'')" and "n \<noteq> []"
  shows "SStr n \<in> fst ` set (test_step t rs) \<longleftrightarrow> named n t \<or> SStr n \<in> fst ` set rs"
proof -
  from test_step_cases [OF assms(1), of rs] consider
    s where "s \<noteq> []" "get t ''name'' = SStr s" "test_step t rs = record_test (SStr s) (passed t) rs"
    | "\<forall>s. s \<noteq> [] \<longrightarrow> \<not> named s t" "test_step t rs = rs"
    by blast
  then show ?thesis
  proof cases
    case 1
    have "fst ` set (test_step t rs) = insert (SStr s) (fst ` set rs)"
      by (simp only: 1(3) record_test_keys)
    moreover have "named n t \<longleftrightarrow> n = s"
      using 1(2) by (auto simp: named_def)
    ultimately show ?thesis by auto
  next
    case 2
    with assms(2) show ?thesis by simp
  qed
qed

lemma test_step_all_keys:
  assumes "str_or_falsy (get t ''name'')"
  shows "fst ` set (test_step t rs) \<subseteq> fst ` set rs \<union> {SStr s | s. s \<noteq> []}"
proof -
  from test_step_cases [OF assms(1), of rs] consider
    s where "s \<noteq> []" "get t ''name'' = SStr s" "test_step t rs = record_test (SStr s) (passed t) rs"
    | "\<forall>s. s \<noteq> [] \<longrightarrow> \<not> named s t" "test_step t rs = rs"
    by blast
  then show ?thesis
  proof cases
    case 1
    have "fst ` set (test_step t rs) = insert (SStr s) (fst ` set rs)"
      by (simp only: 1(3) record_test_keys)
    with 1(1) show ?thesis by blast
  next
    case 2
    then show ?thesis by simp
  qed
qed

lemma test_step_distinct:
  assumes "str_or_falsy (get t ''name'')" and "distinct (map fst rs)"
  shows "distinct (map fst (test_step t rs))"
  using test_step_cases [OF assms(1), of rs] assms(2)
  by (auto simp: record_test_distinct)

lemma fold_tally:
  assumes "\<forall>t \<in> set ts. str_or_falsy (get t ''name'')" and "n \<noteq> []"
  shows "tally (fold test_step ts rs) (SStr n)
           = (fst (tally rs (SStr n)) + (runs ts n - fails ts n),
              snd (tally rs (SStr n)) + fails ts n)"
  using assms(1)
proof (induction ts arbitrary: rs)
  case Nil
  then show ?case by (simp add: runs_def fails_def)
next
  case (Cons t ts)
  have le: "fails ts n \<le> runs ts n"
    unfolding fails_def runs_def
    by (induction ts) auto
  from Cons.prems have t: "str_or_falsy (get t ''name'')" and ts: "\<forall>t \<in> set ts. str_or_falsy (get t ''name'')"
    by simp_all
  show ?case
    using le by (simp add: Cons.IH [OF ts] test_step_tally [OF t assms(2)] bump_def runs_def fails_def)
qed

lemma fold_keys:
  assumes "\<forall>t \<in> set ts. str_or_falsy (get t ''name'')" and "n \<noteq> []"
  shows "SStr n \<in> fst ` set (fold test_step ts rs) \<longleftrightarrow> 0 < runs ts n \<or> SStr n \<in> fst ` set rs"
  using assms(1)
proof (induction ts arbitrary: rs)
  case Nil
  then show ?case by (simp add: runs_def)
next
  case (Cons t ts)
  from Cons.prems have t: "str_or_falsy (get t ''name'')" and ts: "\<forall>t \<in> set ts. str_or_falsy (get t ''name'')"
    by simp_all
  show ?case
    by (auto simp: Cons.IH [OF ts] test_step_keys [OF t assms(2)] runs_def)
qed

lemma fold_all_keys:
  assumes "\<forall>t \<in> set ts. str_or_falsy (get t ''name'')"
  shows "fst ` set (fold test_step ts rs) \<subseteq> fst ` set rs \<union> {SStr s | s. s \<noteq> []}"
  using assms
proof (induction ts arbitrary: rs)
  case Nil
  then show ?case by simp
next
  case (Cons t ts)
  from Cons.prems have t: "str_or_falsy (get t ''name'')" and ts: "\<forall>t \<in> set ts. str_or_falsy (get t ''name'')"
    by simp_all
  show ?case
    using Cons.IH [OF ts, of "test_step t rs"] test_step_all_keys [OF t, of rs]
    by auto
qed

lemma fold_distinct:
  assumes "\<forall>t \<in> set ts. str_or_falsy (get t ''name'')" and "distinct (map fst rs)"
  shows "distinct (map fst (fold test_step ts rs))"
  using assms
proof (induction ts arbitrary: rs)
  case Nil
  then show ?case by simp
next
  case (Cons t ts)
  then show ?case
    by (simp add: test_step_distinct)
qed

lemma concat_map_if:
  "concat (map (\<lambda>e. if P e then [g e] else []) rs) = map g (filter P rs)"
  by (induction rs) simp_all

lemma flaky_tests_filter:
  "flaky_tests rs = map (\<lambda>(k, p, f). (k, real f / real (p + f))) (filter is_flaky rs)"
proof -
  have "(\<lambda>(test_name, p, f).
               let total = p + f
               in if 1 < total \<and> 0 < f \<and> 0 < p then
                    (let failure_rate = real f / real total
                     in if 1 / 10 < failure_rate \<and> failure_rate < 9 / 10
                        then [(test_name, failure_rate)] else [])
                  else [])
        = (\<lambda>e. if is_flaky e then [(\<lambda>(k, p, f). (k, real f / real (p + f))) e] else [])"
    by (rule ext) (simp add: is_flaky_def Let_def split: prod.splits)
  then show ?thesis
    unfolding flaky_tests_def by (simp only: concat_map_if)
qed

lemma flaky_tests_distinct:
  "distinct (map fst rs) \<Longrightarrow> distinct (map fst (flaky_tests rs))"
proof -
  assume d: "distinct (map fst rs)"
  have "map fst (flaky_tests rs) = map fst (filter is_flaky rs)"
    by (simp add: flaky_tests_filter case_prod_beta comp_def)
  with d show ?thesis
    by (simp add: distinct_map_filter)
qed

lemma flaky_tests_mem:
  assumes "distinct (map fst rs)"
  shows "(k, r) \<in> set (flaky_tests rs) \<longleftrightarrow>
           k \<in> fst ` set rs \<and> is_flaky (k, tally rs k)
           \<and> r = real (snd (tally rs k)) / real (fst (tally rs k) + snd (tally rs k))"
proof (cases "map_of rs k")
  case None
  then have n: "k \<notin> fst ` set rs"
    by (simp add: map_of_eq_None_iff)
  then have "\<And>p f. (k, p, f) \<notin> set rs"
    by force
  then have "(k, r) \<notin> set (flaky_tests rs)"
    by (auto simp: flaky_tests_filter)
  with n show ?thesis by simp
next
  case (Some pf)
  obtain p f where pf: "pf = (p, f)" by (cases pf)
  have m: "(k, p', f') \<in> set rs \<longleftrightarrow> p' = p \<and> f' = f" for p' f'
  proof -
    have "(k, p', f') \<in> set rs \<longleftrightarrow> map_of rs k = Some (p', f')"
      using assms by (simp add: map_of_eq_Some_iff)
    then show ?thesis
      using Some pf by auto
  qed
  have k: "k \<in> fst ` set rs"
    using m [of p f] by force
  have t: "tally rs k = (p, f)"
    using Some pf by (simp add: tally_def)
  have "(k, r) \<in> set (flaky_tests rs) \<longleftrightarrow>
          (\<exists>p' f'. (k, p', f') \<in> set rs \<and> is_flaky (k, p', f') \<and> r = real f' / real (p' + f'))"
    unfolding flaky_tests_filter by force
  also have "\<dots> \<longleftrightarrow> is_flaky (k, p, f) \<and> r = real f / real (p + f)"
    by (auto simp: m)
  finally show ?thesis
    using k t by simp
qed

lemma ratio_iff:
  fixes p f :: nat
  shows "(1 < p + f \<and> 0 < f \<and> 0 < p \<and> 1 / 10 < real f / real (p + f) \<and> real f / real (p + f) < 9 / 10)
         \<longleftrightarrow> (2 \<le> p + f \<and> 1 / 10 < real f / real (p + f) \<and> real f / real (p + f) < 9 / 10)"
proof -
  have "0 < f" if "1 / 10 < real f / real (p + f)"
    using that by (cases "f = 0") simp_all
  moreover have "0 < p" if "real f / real (p + f) < 9 / 10" "0 < f"
    using that by (cases "p = 0") simp_all
  ultimately show ?thesis by auto
qed

lemma py_join_strings:
  "\<forall>v \<in> set vs. \<exists>s. v = SStr s \<Longrightarrow> \<exists>r. py_join sep vs = Inr r"
  by (induction sep vs rule: py_join.induct) auto

lemma flaky_classification:
  assumes "\<forall>t \<in> set ts. str_or_falsy (get t ''name'')"
  shows "(\<forall>n r. (SStr n, r) \<in> set (flaky_tests (test_results ts)) \<longleftrightarrow>
            n \<noteq> [] \<and> 2 \<le> runs ts n \<and> r = real (fails ts n) / real (runs ts n)
            \<and> 1 / 10 < r \<and> r < 9 / 10)
         \<and> (\<forall>k r. (k, r) \<in> set (flaky_tests (test_results ts)) \<longrightarrow> (\<exists>n. k = SStr n))
         \<and> distinct (map fst (flaky_tests (test_results ts)))
         \<and> (\<exists>names. py_join '', '' (map fst (take 3 (flaky_tests (test_results ts)))) = Inr names
              \<and> analyze_test_reliability ts
                  = Inr (if flaky_tests (test_results ts) = [] then []
                         else [flaky_issue (flaky_tests (test_results ts)) names]))
         \<and> severity (flaky_issue fl nm) = ''high'' \<and> category (flaky_issue fl nm) = ''reliability''
         \<and> confidence (flaky_issue fl nm) = 85 / 100"
proof -
  let ?rs = "test_results ts"
  have d: "distinct (map fst ?rs)"
    unfolding test_results_fold by (rule fold_distinct [OF assms]) simp
  have keys: "fst ` set ?rs \<subseteq> {SStr s | s. s \<noteq> []}"
    using fold_all_keys [OF assms, of "[]"] by (simp add: test_results_fold)
  have le: "fails ts n \<le> runs ts n" for n
    unfolding fails_def runs_def by (induction ts) auto
  have tl: "tally ?rs (SStr n) = (runs ts n - fails ts n, fails ts n)" if "n \<noteq> []" for n
    using fold_tally [OF assms that, of "[]"] by (simp add: test_results_fold tally_def)
  have ky: "SStr n \<in> fst ` set ?rs \<longleftrightarrow> 0 < runs ts n" if "n \<noteq> []" for n
    using fold_keys [OF assms that, of "[]"] by (simp add: test_results_fold)
  have c1: "(SStr n, r) \<in> set (flaky_tests ?rs) \<longleftrightarrow>
            n \<noteq> [] \<and> 2 \<le> runs ts n \<and> r = real (fails ts n) / real (runs ts n)
            \<and> 1 / 10 < r \<and> r < 9 / 10" for n r
  proof (cases "n = []")
    case True
    have "SStr n \<notin> fst ` set ?rs"
      using keys True by auto
    then show ?thesis
      using True by (simp add: flaky_tests_mem [OF d])
  next
    case False
    have s: "runs ts n - fails ts n + fails ts n = runs ts n"
      using le [of n] by simp
    show ?thesis
      using False ratio_iff [of "runs ts n - fails ts n" "fails ts n"]
      by (auto simp: flaky_tests_mem [OF d] tl [OF False] ky [OF False] is_flaky_def s)
  qed
  have c2: "\<exists>n. k = SStr n" if "(k, r) \<in> set (flaky_tests ?rs)" for k r
    using that keys by (auto simp: flaky_tests_mem [OF d])
  have c3: "distinct (map fst (flaky_tests ?rs))"
    by (rule flaky_tests_distinct [OF d])
  have "\<forall>v \<in> set (map fst (take 3 (flaky_tests ?rs))). \<exists>s. v = SStr s"
    using c2 by (auto dest!: in_set_takeD)
  then obtain names where j: "py_join '', '' (map fst (take 3 (flaky_tests ?rs))) = Inr names"
    using py_join_strings by blast
  have c4: "analyze_test_reliability ts
              = Inr (if flaky_tests ?rs = [] then [] else [flaky_issue (flaky_tests ?rs) names])"
    by (simp add: analyze_test_reliability_def Let_def j)
  have c5: "severity (flaky_issue fl nm) = ''high'' \<and> category (flaky_issue fl nm) = ''reliability''
         \<and> confidence (flaky_issue fl nm) = 85 / 100"
    by (simp add: flaky_issue_def)
  from c1 c2 c3 j c4 c5 show ?thesis
    by blast
qed

lemma py_join_joined: "py_join sep (map SStr ns) = Inr (joined sep ns)"
  by (induction sep ns rule: joined.induct) simp_all

lemma strings_name_str:
  "\<forall>v \<in> set vs. \<exists>s. v = SStr s \<Longrightarrow> vs = map SStr (map name_str vs)"
  by (induction vs) (auto simp: name_str_def)

text \<open>
  C4. When every test name is a string (or a value the grouping loop skips), a test named
  \<open>n\<close> is classified flaky, with its failure ratio, exactly when the name is not empty,
  the test has at least 2 recorded runs and the ratio of its runs that have not passed lies
  strictly between 0.1 and 0.9 (a run has failed when its status is anything but
  \<open>passed\<close>). Every test is classified at most once. If no test is flaky the check
  returns no issue; otherwise it returns exactly one issue, of severity high, category
  reliability and confidence 0.85, whose recommendation lists the names of the first three
  flaky tests, joined by a comma and a space, followed by three dots when there are more
  than three, and whose metadata holds every flaky test with its ratio.
\<close>

theorem analyze_test_reliability_flaky:
  assumes "\<forall>t \<in> set ts. str_or_falsy (get t ''name'')"
  shows "(\<forall>n r. (SStr n, r) \<in> set (flaky_tests (test_results ts)) \<longleftrightarrow>
            n \<noteq> [] \<and> 2 \<le> runs ts n \<and> r = real (fails ts n) / real (runs ts n)
            \<and> 1 / 10 < r \<and> r < 9 / 10)
         \<and> (\<forall>k r. (k, r) \<in> set (flaky_tests (test_results ts)) \<longrightarrow> (\<exists>n. k = SStr n))
         \<and> distinct (map fst (flaky_tests (test_results ts)))
         \<and> (\<exists>names. py_join '', '' (map fst (take 3 (flaky_tests (test_results ts)))) = Inr names
              \<and> analyze_test_reliability ts
                  = Inr (if flaky_tests (test_results ts) = [] then []
                         else [flaky_issue (flaky_tests (test_results ts)) names]))
         \<and> severity (flaky_issue fl nm) = ''high'' \<and> category (flaky_issue fl nm) = ''reliability''
         \<and> confidence (flaky_issue fl nm) = 85 / 100
         \<and> py_join '', '' (map fst (take 3 (flaky_tests (test_results ts))))
             = Inr (joined '', '' (map name_str (map fst (take 3 (flaky_tests (test_results ts))))))
         \<and> analyze_test_reliability ts
             = Inr (if flaky_tests (test_results ts) = [] then []
                    else [\<lparr>severity = ''high'',
                           category = ''reliability'',
                           title = ''Flaky Tests Detected'',
                           description = [Lit ''Found '',
                                          FmtInt (int (length (flaky_tests (test_results ts)))),
                                          Lit '' flaky tests with intermittent failures''],
                           affected_component = ''Test Suite'',
                           impact = [Lit ''Flaky tests reduce confidence in test results, waste time investigating false failures, and may mask real issues''],
                           recommendation =
                             [Lit ''Investigate and fix flaky tests: '',
                              Lit (joined '', '' (map name_str
                                     (map fst (take 3 (flaky_tests (test_results ts)))))),
                              Lit (if 3 < length (flaky_tests (test_results ts)) then ''...'' else []),
                              Lit ''. Common causes: timing issues, shared state, external dependencies''],
                           confidence = 85 / 100,
                           metadata =
                             [(''flaky_tests'',
                               PList (map (\<lambda>(n, r). PDict [(''name'', Scalar n),
                                                          (''failure_rate'', Scalar (SFloat r))])
                                          (flaky_tests (test_results ts))))]\<rparr>])"
proof -
  let ?fl = "flaky_tests (test_results ts)"
  note old = flaky_classification [OF assms, of fl nm]
  from old have c2: "\<forall>k r. (k, r) \<in> set ?fl \<longrightarrow> (\<exists>n. k = SStr n)"
    by (elim conjE)
  have "\<forall>v \<in> set (map fst (take 3 ?fl)). \<exists>s. v = SStr s"
    using c2 by (auto dest!: in_set_takeD)
  then have "map fst (take 3 ?fl) = map SStr (map name_str (map fst (take 3 ?fl)))"
    by (rule strings_name_str)
  then have "py_join '', '' (map fst (take 3 ?fl))
           = py_join '', '' (map SStr (map name_str (map fst (take 3 ?fl))))"
    by (rule arg_cong)
  then have j: "py_join '', '' (map fst (take 3 ?fl))
           = Inr (joined '', '' (map name_str (map fst (take 3 ?fl))))"
    by (simp only: py_join_joined)
  have r: "analyze_test_reliability ts
             = Inr (if ?fl = [] then []
                    else [flaky_issue ?fl (joined '', '' (map name_str (map fst (take 3 ?fl))))])"
    by (simp add: analyze_test_reliability_def Let_def j)
  have e: "analyze_test_reliability ts
             = Inr (if flaky_tests (test_results ts) = [] then []
                    else [\<lparr>severity = ''high'',
                           category = ''reliability'',
                           title = ''Flaky Tests Detected'',
                           description = [Lit ''Found '',
                                          FmtInt (int (length (flaky_tests (test_results ts)))),
                                          Lit '' flaky tests with intermittent failures''],
                           affected_component = ''Test Suite'',
                           impact = [Lit ''Flaky tests reduce confidence in test results, waste time investigating false failures, and may mask real issues''],
                           recommendation =
                             [Lit ''Investigate and fix flaky tests: '',
                              Lit (joined '', '' (map name_str
                                     (map fst (take 3 (flaky_tests (test_results ts)))))),
                              Lit (if 3 < length (flaky_tests (test_results ts)) then ''...'' else []),
                              Lit ''. Common causes: timing issues, shared state, external dependencies''],
                           confidence = 85 / 100,
                           metadata =
                             [(''flaky_tests'',
                               PList (map (\<lambda>(n, r). PDict [(''name'', Scalar n),
                                                          (''failure_rate'', Scalar (SFloat r))])
                                          (flaky_tests (test_results ts))))]\<rparr>])"
    unfolding r by (simp add: flaky_issue_def)
  from old j e show ?thesis
    by (intro conjI) (elim conjE, assumption)+
qed

theorem analyze_test_reliability_flaky_witness:
  "(SStr ''t1'', 2 / 5) \<in> set (flaky_tests (test_results
       (replicate 6 (test_run ''t1'' ''passed'') @ replicate 4 (test_run ''t1'' ''failed''))))
   \<and> analyze_test_reliability
       (replicate 6 (test_run ''t1'' ''passed'') @ replicate 4 (test_run ''t1'' ''failed''))
       = Inr [flaky_issue [(SStr ''t1'', 2 / 5)] ''t1'']
   \<and> (\<forall>r. (SStr ''t1'', r) \<notin> set (flaky_tests (test_results (replicate 10 (test_run ''t1'' ''passed'')))))
   \<and> (\<forall>r. (SStr ''t1'', r) \<notin> set (flaky_tests (test_results (replicate 10 (test_run ''t1'' ''failed'')))))
   \<and> (\<exists>i. analyze_test_reliability four_flaky = Inr [i]
          \<and> recommendation i
              = [Lit ''Investigate and fix flaky tests: '', Lit ''ta, tb, tc'', Lit ''...'',
                 Lit ''. Common causes: timing issues, shared state, external dependencies''])"
proof -
  let ?a = "replicate 6 (test_run ''t1'' ''passed'') @ replicate 4 (test_run ''t1'' ''failed'')"
  let ?b = "replicate 10 (test_run ''t1'' ''passed'')"
  let ?c = "replicate 10 (test_run ''t1'' ''failed'')"
  have nm: "get (test_run n s) ''name'' = SStr n" for n s
    by (simp add: test_run_def get_def)
  have st: "get (test_run n s) ''status'' = SStr s" for n s
    by (simp add: test_run_def get_def)
  have ha: "\<forall>t \<in> set ?a. str_or_falsy (get t ''name'')"
    and hb: "\<forall>t \<in> set ?b. str_or_falsy (get t ''name'')"
    and hc: "\<forall>t \<in> set ?c. str_or_falsy (get t ''name'')"
    and hf: "\<forall>t \<in> set four_flaky. str_or_falsy (get t ''name'')"
    by (auto simp: nm str_or_falsy_def four_flaky_def)
  have ra: "runs ?a ''t1'' = 10" "fails ?a ''t1'' = 4"
    and rb: "runs ?b ''t1'' = 10" "fails ?b ''t1'' = 0"
    and rc: "runs ?c ''t1'' = 10" "fails ?c ''t1'' = 10"
    by (simp_all add: runs_def fails_def named_def passed_def nm st)
  note A = analyze_test_reliability_flaky [OF ha, where fl = "[]" and nm = "[]"]
  note B = analyze_test_reliability_flaky [OF hb, where fl = "[]" and nm = "[]"]
  note C = analyze_test_reliability_flaky [OF hc, where fl = "[]" and nm = "[]"]
  note F = analyze_test_reliability_flaky [OF hf, where fl = "[]" and nm = "[]"]
  note A1 = A [THEN conjunct1, rule_format]
  have a1: "(SStr ''t1'', 2 / 5) \<in> set (flaky_tests (test_results ?a))"
    unfolding A1 by (simp add: ra)
  have ta: "test_results ?a = [(SStr ''t1'', 6, 4)]"
    by (simp add: test_results_def Let_def nm st truthy_def eval_nat_numeral)
  have fa: "flaky_tests (test_results ?a) = [(SStr ''t1'', 2 / 5)]"
    unfolding ta by (simp add: flaky_tests_def Let_def)
  from A have "analyze_test_reliability ?a
             = Inr (if flaky_tests (test_results ?a) = [] then []
                    else [\<lparr>severity = ''high'',
                           category = ''reliability'',
                           title = ''Flaky Tests Detected'',
                           description = [Lit ''Found '',
                                          FmtInt (int (length (flaky_tests (test_results ?a)))),
                                          Lit '' flaky tests with intermittent failures''],
                           affected_component = ''Test Suite'',
                           impact = [Lit ''Flaky tests reduce confidence in test results, waste time investigating false failures, and may mask real issues''],
                           recommendation =
                             [Lit ''Investigate and fix flaky tests: '',
                              Lit (joined '', '' (map name_str
                                     (map fst (take 3 (flaky_tests (test_results ?a)))))),
                              Lit (if 3 < length (flaky_tests (test_results ?a)) then ''...'' else []),
                              Lit ''. Common causes: timing issues, shared state, external dependencies''],
                           confidence = 85 / 100,
                           metadata =
                             [(''flaky_tests'',
                               PList (map (\<lambda>(n, r). PDict [(''name'', Scalar n),
                                                          (''failure_rate'', Scalar (SFloat r))])
                                          (flaky_tests (test_results ?a))))]\<rparr>])"
    by (elim conjE)
  then have a2: "analyze_test_reliability ?a = Inr [flaky_issue [(SStr ''t1'', 2 / 5)] ''t1'']"
    unfolding fa by (simp add: flaky_issue_def name_str_def)
  have b1: "(SStr ''t1'', r) \<notin> set (flaky_tests (test_results ?b))" for r
    unfolding B [THEN conjunct1, rule_format] by (simp add: rb)
  have c1: "(SStr ''t1'', r) \<notin> set (flaky_tests (test_results ?c))" for r
    unfolding C [THEN conjunct1, rule_format] by (simp add: rc)
  have ff: "flaky_tests (test_results four_flaky)
              = [(SStr ''ta'', 1 / 2), (SStr ''tb'', 1 / 2), (SStr ''tc'', 1 / 2), (SStr ''td'', 1 / 2)]"
    by (simp add: four_flaky_def test_results_def flaky_tests_def Let_def nm st truthy_def)
  from F have "analyze_test_reliability four_flaky
             = Inr (if flaky_tests (test_results four_flaky) = [] then []
                    else [\<lparr>severity = ''high'',
                           category = ''reliability'',
                           title = ''Flaky Tests Detected'',
                           description = [Lit ''Found '',
                                          FmtInt (int (length (flaky_tests (test_results four_flaky)))),
                                          Lit '' flaky tests with intermittent failures''],
                           affected_component = ''Test Suite'',
                           impact = [Lit ''Flaky tests reduce confidence in test results, waste time investigating false failures, and may mask real issues''],
                           recommendation =
                             [Lit ''Investigate and fix flaky tests: '',
                              Lit (joined '', '' (map name_str
                                     (map fst (take 3 (flaky_tests (test_results four_flaky)))))),
                              Lit (if 3 < length (flaky_tests (test_results four_flaky)) then ''...'' else []),
                              Lit ''. Common causes: timing issues, shared state, external dependencies''],
                           confidence = 85 / 100,
                           metadata =
                             [(''flaky_tests'',
                               PList (map (\<lambda>(n, r). PDict [(''name'', Scalar n),
                                                          (''failure_rate'', Scalar (SFloat r))])
                                          (flaky_tests (test_results four_flaky))))]\<rparr>])"
    by (elim conjE)
  then have f1: "\<exists>i. analyze_test_reliability four_flaky = Inr [i]
          \<and> recommendation i
              = [Lit ''Investigate and fix flaky tests: '', Lit ''ta, tb, tc'', Lit ''...'',
                 Lit ''. Common causes: timing issues, shared state, external dependencies'']"
    unfolding ff by (simp add: name_str_def)
  from a1 a2 b1 c1 f1 show ?thesis by blast
qed

lemma py_sum_numeric:
  "\<forall>v \<in> set vs. num_of v \<noteq> None \<Longrightarrow> py_sum vs = Inr (sum_list (map (\<lambda>v. the (num_of v)) vs))"
  by (induction vs) auto


lemma analyze_test_reliability_empty: "analyze_test_reliability [] = Inr []"
  by (simp add: analyze_test_reliability_def test_results_def flaky_tests_def)

lemma analyze_deployments_empty: "analyze_deployments [] = Inr []"
  by (simp add: analyze_deployments_def)

lemma usage_check_empty: "usage_check [] limit mk = Inr []"
  by (simp add: usage_check_def)

lemma analyze_resource_usage_empty:
  "section_list (cpu_usage r) = [] \<Longrightarrow> section_list (memory_usage r) = []
   \<Longrightarrow> analyze_resource_usage r = Inr []"
  by (simp add: analyze_resource_usage_def usage_check_empty)

lemma analyze_security_empty: "analyze_security [] = Inr []"
  by (simp add: analyze_security_def)

lemma analyze_kubernetes_empty:
  assumes "section_list (pods k) = []" "section_list (nodes k) = []"
    "section_list (k8s_deployments k) = []" "section_list (resource_usage k) = []"
    "section_list (pvcs k) = []" "section_list (service_mesh k) = []"
  shows "analyze_kubernetes k = Inr []"
  using assms
  by (simp add: analyze_kubernetes_def pod_check_def node_check_def deployment_check_def
      cluster_usage_check_def pvc_check_def mesh_check_def)

lemma section_list_None: "section_list None = []"
  by (simp add: section_list_def)

lemma analyze_only_builds:
  "analyze (only_builds bs) = bind_err (analyze_build_performance bs) (\<lambda>is. Inr (prioritize_issues is))"
proof -
  have k: "analyze_kubernetes no_kubernetes = Inr []"
    by (rule analyze_kubernetes_empty) (simp_all add: no_kubernetes_def section_list_None)
  have r: "analyze_resource_usage no_resources = Inr []"
    by (rule analyze_resource_usage_empty) (simp_all add: no_resources_def section_list_None)
  show ?thesis
    by (simp add: analyze_def only_builds_def section_list_None analyze_test_reliability_empty
        analyze_deployments_empty analyze_security_empty k r section_list_def)
qed


lemma build_performance_numeric:
  assumes "\<forall>b \<in> set bs. get b ''status'' = SStr ''success''
             \<longrightarrow> num_of (get_default b ''duration'' (SInt 0)) \<noteq> None"
  shows "analyze_build_performance bs
     = Inr ((if success_durations bs \<noteq> [] \<and> 600 < average (success_durations bs)
             then [slow_build_issue (average (success_durations bs)) (length (success_durations bs))]
             else [])
            @ (if 15 / 100 < real (failed_count bs) / real (length bs)
               then [build_failure_issue (real (failed_count bs) / real (length bs))
                       (failed_count bs) (length bs)]
               else []))"
proof (cases "bs = []")
  case True
  then show ?thesis
    by (simp add: analyze_build_performance_def success_durations_def failed_count_def)
next
  case False
  let ?ds = "map (\<lambda>b. get_default b ''duration'' (SInt 0))
                 (filter (\<lambda>b. py_eq (get b ''status'') (SStr ''success'')) bs)"
  have n: "\<forall>v \<in> set ?ds. num_of v \<noteq> None"
    using assms by auto
  have m: "map (\<lambda>v. the (num_of v)) ?ds = success_durations bs"
    by (simp add: success_durations_def comp_def)
  have l: "length ?ds = length (success_durations bs)"
    by (simp add: success_durations_def)
  have e: "?ds = [] \<longleftrightarrow> success_durations bs = []"
    by (simp add: success_durations_def)
  have s: "slow_build_check ?ds
           = Inr (if success_durations bs \<noteq> [] \<and> 600 < average (success_durations bs)
             then [slow_build_issue (average (success_durations bs)) (length (success_durations bs))]
             else [])"
    unfolding slow_build_check_def py_sum_numeric [OF n] m l e
    by (simp add: average_def slow_builds_threshold_def Let_def)
  show ?thesis
    using False unfolding analyze_build_performance_def Let_def s
    by (simp add: failed_count_def)
qed


text \<open>
  C3. When the duration of every successful build is a number, the build-performance check
  returns: the medium/performance issue with confidence 0.9 and metadata avg_duration and
  sample_size exactly when there is a successful build and the average duration of the
  successful builds exceeds 600, followed by the high/reliability issue with confidence
  0.95 exactly when failed/total over all builds exceeds 0.15. On a batch that has only a
  builds section, analyze returns these issues, prioritized. So 20 builds, all successful,
  with an average duration of 650 give exactly one issue, the performance issue with
  avg_duration 650, and no build-failure issue.
\<close>

theorem analyze_build_performance_thresholds:
  "(\<forall>b \<in> set bs. get b ''status'' = SStr ''success''
             \<longrightarrow> num_of (get_default b ''duration'' (SInt 0)) \<noteq> None)
   \<longrightarrow>
   analyze_build_performance bs
     = Inr ((if success_durations bs \<noteq> [] \<and> 600 < average (success_durations bs)
             then [slow_build_issue (average (success_durations bs)) (length (success_durations bs))]
             else [])
            @ (if 15 / 100 < real (failed_count bs) / real (length bs)
               then [build_failure_issue (real (failed_count bs) / real (length bs))
                       (failed_count bs) (length bs)]
               else []))
   \<and> analyze (only_builds bs)
     = Inr (prioritize_issues
            ((if success_durations bs \<noteq> [] \<and> 600 < average (success_durations bs)
             then [slow_build_issue (average (success_durations bs)) (length (success_durations bs))]
             else [])
            @ (if 15 / 100 < real (failed_count bs) / real (length bs)
               then [build_failure_issue (real (failed_count bs) / real (length bs))
                       (failed_count bs) (length bs)]
               else [])))
   \<and> severity (slow_build_issue a n) = ''medium'' \<and> category (slow_build_issue a n) = ''performance''
   \<and> confidence (slow_build_issue a n) = 9 / 10
   \<and> metadata (slow_build_issue a n)
       = [(''avg_duration'', Scalar (SFloat a)), (''sample_size'', Scalar (SInt (int n)))]
   \<and> severity (build_failure_issue r f t) = ''high''
   \<and> category (build_failure_issue r f t) = ''reliability''
   \<and> confidence (build_failure_issue r f t) = 95 / 100
   \<and> (length bs = 20 \<and> (\<forall>b \<in> set bs. get b ''status'' = SStr ''success'')
        \<and> average (success_durations bs) = 650
       \<longrightarrow> analyze (only_builds bs) = Inr [slow_build_issue 650 20])"
proof
  assume h: "\<forall>b \<in> set bs. get b ''status'' = SStr ''success''
             \<longrightarrow> num_of (get_default b ''duration'' (SInt 0)) \<noteq> None"
  note bp = build_performance_numeric [OF h]
  have an: "analyze (only_builds bs)
     = Inr (prioritize_issues
            ((if success_durations bs \<noteq> [] \<and> 600 < average (success_durations bs)
             then [slow_build_issue (average (success_durations bs)) (length (success_durations bs))]
             else [])
            @ (if 15 / 100 < real (failed_count bs) / real (length bs)
               then [build_failure_issue (real (failed_count bs) / real (length bs))
                       (failed_count bs) (length bs)]
               else [])))"
    by (simp only: analyze_only_builds bp bind_err_simps)
  have ex: "analyze (only_builds bs) = Inr [slow_build_issue 650 20]"
    if "length bs = 20" "\<forall>b \<in> set bs. get b ''status'' = SStr ''success''"
      "average (success_durations bs) = 650"
  proof -
    have f: "filter (\<lambda>b. get b ''status'' = SStr ''success'') bs = bs"
      using that(2) by (simp add: filter_id_conv)
    have l: "length (success_durations bs) = 20"
      by (simp add: success_durations_def f that(1))
    then have ne: "success_durations bs \<noteq> []" by auto
    have "filter (\<lambda>b. get b ''status'' = SStr ''failed'') bs = []"
      using that(2) by (simp add: filter_empty_conv)
    then have z: "failed_count bs = 0"
      by (simp add: failed_count_def)
    show ?thesis
      unfolding an by (simp add: ne l z that(3) prioritize_issues_def sorted_reverse_def)
  qed
  from bp an ex show "analyze_build_performance bs
     = Inr ((if success_durations bs \<noteq> [] \<and> 600 < average (success_durations bs)
             then [slow_build_issue (average (success_durations bs)) (length (success_durations bs))]
             else [])
            @ (if 15 / 100 < real (failed_count bs) / real (length bs)
               then [build_failure_issue (real (failed_count bs) / real (length bs))
                       (failed_count bs) (length bs)]
               else []))
   \<and> analyze (only_builds bs)
     = Inr (prioritize_issues
            ((if success_durations bs \<noteq> [] \<and> 600 < average (success_durations bs)
             then [slow_build_issue (average (success_durations bs)) (length (success_durations bs))]
             else [])
            @ (if 15 / 100 < real (failed_count bs) / real (length bs)
               then [build_failure_issue (real (failed_count bs) / real (length bs))
                       (failed_count bs) (length bs)]
               else [])))
   \<and> severity (slow_build_issue a n) = ''medium'' \<and> category (slow_build_issue a n) = ''performance''
   \<and> confidence (slow_build_issue a n) = 9 / 10
   \<and> metadata (slow_build_issue a n)
       = [(''avg_duration'', Scalar (SFloat a)), (''sample_size'', Scalar (SInt (int n)))]
   \<and> severity (build_failure_issue r f t) = ''high''
   \<and> category (build_failure_issue r f t) = ''reliability''
   \<and> confidence (build_failure_issue r f t) = 95 / 100
   \<and> (length bs = 20 \<and> (\<forall>b \<in> set bs. get b ''status'' = SStr ''success'')
        \<and> average (success_durations bs) = 650
       \<longrightarrow> analyze (only_builds bs) = Inr [slow_build_issue 650 20])"
    by (simp add: slow_build_issue_def build_failure_issue_def)
qed

theorem analyze_build_performance_thresholds_witness:
  "analyze (only_builds (replicate 20 (ok_build 650))) = Inr [slow_build_issue 650 20]
   \<and> map_of (metadata (slow_build_issue 650 20)) ''avg_duration'' = Some (Scalar (SFloat 650))
   \<and> analyze_build_performance (replicate 20 (ok_build 650)) = Inr [slow_build_issue 650 20]"
proof -
  let ?bs = "replicate 20 (ok_build 650)"
  have s: "get (ok_build 650) ''status'' = SStr ''success''"
    by (simp add: ok_build_def get_def)
  have d: "get_default (ok_build 650) ''duration'' (SInt 0) = SInt 650"
    by (simp add: ok_build_def get_default_def)
  have h: "\<forall>b \<in> set ?bs. get b ''status'' = SStr ''success''
             \<longrightarrow> num_of (get_default b ''duration'' (SInt 0)) \<noteq> None"
    by (simp add: d num_of_def)
  have sd: "success_durations ?bs = replicate 20 650"
    by (simp add: success_durations_def s d num_of_def)
  have av: "average (success_durations ?bs) = 650"
    by (simp add: sd average_def sum_list_replicate)
  have fc: "failed_count ?bs = 0"
    by (simp add: failed_count_def s)
  have al: "\<forall>b \<in> set ?bs. get b ''status'' = SStr ''success''"
    by (simp add: s)
  note T = analyze_build_performance_thresholds
      [where bs = ?bs and a = 650 and n = 20 and r = 0 and f = 0 and t = 0, THEN mp, OF h]
  have ln: "length ?bs = 20" by simp
  from T have "length ?bs = 20 \<and> (\<forall>b \<in> set ?bs. get b ''status'' = SStr ''success'')
        \<and> average (success_durations ?bs) = 650
       \<longrightarrow> analyze (only_builds ?bs) = Inr [slow_build_issue 650 20]"
    by (elim conjE)
  with ln al av have 1: "analyze (only_builds ?bs) = Inr [slow_build_issue 650 20]"
    by blast
  from T have 2: "analyze_build_performance ?bs
     = Inr ((if success_durations ?bs \<noteq> [] \<and> 600 < average (success_durations ?bs)
             then [slow_build_issue (average (success_durations ?bs)) (length (success_durations ?bs))]
             else [])
            @ (if 15 / 100 < real (failed_count ?bs) / real (length ?bs)
               then [build_failure_issue (real (failed_count ?bs) / real (length ?bs))
                       (failed_count ?bs) (length ?bs)]
               else []))"
    by (elim conjE)
  from T have 3: "metadata (slow_build_issue 650 20)
       = [(''avg_duration'', Scalar (SFloat 650)), (''sample_size'', Scalar (SInt (int 20)))]"
    by (elim conjE)
  from 2 have 4: "analyze_build_performance ?bs = Inr [slow_build_issue 650 20]"
    unfolding av fc by (simp add: sd)
  from 1 3 4 show ?thesis by simp
qed








section \<open>Properties of the ML-pipeline analyzer\<close>

lemma py_sorted_mset: "py_sorted key xs = Inr ys \<Longrightarrow> mset ys = mset xs"
  by (auto simp: py_sorted_def split: if_splits)

lemma py_sorted_length: "py_sorted key xs = Inr ys \<Longrightarrow> length ys = length xs"
  by (auto simp: py_sorted_def split: if_splits)

lemma py_sorted_strings:
  assumes "\<forall>x \<in> set xs. \<exists>s. key x = SStr s"
  shows "\<exists>ys. py_sorted key xs = Inr ys \<and> sorted (map (\<lambda>x. the (str_of (key x))) ys)"
proof (cases "length xs \<le> 1")
  case True
  then have "py_sorted key xs = Inr xs"
    by (simp add: py_sorted_def)
  moreover have "sorted (map (\<lambda>x. the (str_of (key x))) xs)"
    using True by (cases xs) (simp_all add: le_Suc_eq)
  ultimately show ?thesis by blast
next
  case False
  have "list_all (\<lambda>x. str_of (key x) \<noteq> None) xs"
    using assms by (auto simp: list_all_iff str_of_def)
  with False have "py_sorted key xs = Inr (sort_key (\<lambda>x. the (str_of (key x))) xs)"
    by (simp add: py_sorted_def)
  then show ?thesis by simp
qed

lemma older_window_short: "length sm \<le> 5 \<Longrightarrow> older_window sm = []"
  by (simp add: older_window_def)

lemma degradation_check_short: "length sm \<le> 5 \<Longrightarrow> degradation_check sm = Inr []"
  by (simp add: degradation_check_def Let_def older_window_short)

lemma low_f1_check_titles:
  "low_f1_check m = Inr is \<Longrightarrow> list_all (\<lambda>i. title i = ''Low Model F1 Score'') is"
  by (auto simp: low_f1_check_def Let_def low_f1_issue_def split: option.splits if_splits)

lemma analyze_model_performance_short:
  assumes "length ms \<le> 5" and "analyze_model_performance ms = Inr issues"
  shows "list_all (\<lambda>i. title i \<noteq> degradation_title) issues"
proof (cases "ms = [] \<or> length ms < 2")
  case True
  with assms(2) show ?thesis
    by (simp add: analyze_model_performance_def)
next
  case False
  let ?key = "\<lambda>x. get_default x ''timestamp'' (SStr [])"
  from assms(2) False obtain sm where sm: "py_sorted ?key ms = Inr sm"
    by (cases "py_sorted ?key ms") (simp_all add: analyze_model_performance_def)
  have "length sm \<le> 5"
    using py_sorted_length [OF sm] assms(1) by simp
  then have d: "degradation_check sm = Inr []"
    by (rule degradation_check_short)
  from assms(2) False have "low_f1_check (last sm) = Inr issues"
    by (cases "low_f1_check (last sm)") (simp_all add: analyze_model_performance_def sm d)
  then have "list_all (\<lambda>i. title i = ''Low Model F1 Score'') issues"
    by (rule low_f1_check_titles)
  then show ?thesis
    by (induction issues) (simp_all add: degradation_title_def)
qed

lemmas ml_eval = analyze_model_performance_def py_sorted_def degradation_check_def low_f1_check_def
  recent_window_def older_window_def py_mean_def py_sub_def py_gt_def metric_point_def
  get_default_def str_of_def num_of_def is_float_def num_def Let_def
  accuracy_drop_threshold_def f1_score_threshold_def less_char_def less_eq_char_def

lemma three_points_result: "analyze_model_performance three_points = Inr []"
  by (simp add: three_points_def ml_eval)

lemma six_points_result:
  "analyze_model_performance six_points
     = Inr [degradation_issue (SFloat (8 / 10)) (SFloat (9 / 10)) (SFloat (1 / 10))]"
  by (simp add: six_points_def ml_eval)

text \<open>
  C10. With at most 5 metric points the window of points before the most recent five is
  empty and the trend check returns no issue, so a call of the model-performance check
  that returns never returns the accuracy-degradation issue, however large the drop; a
  call that returns the degradation issue has at least 6 points.
\<close>

theorem degradation_needs_six_points:
  "(length sm \<le> 5 \<longrightarrow> older_window sm = [] \<and> degradation_check sm = Inr [])
   \<and> (length ms \<le> 5 \<and> analyze_model_performance ms = Inr issues
        \<longrightarrow> list_all (\<lambda>i. title i \<noteq> degradation_title) issues)
   \<and> (analyze_model_performance ms = Inr issues \<and> list_ex (\<lambda>i. title i = degradation_title) issues
        \<longrightarrow> 6 \<le> length ms)"
proof (intro conjI impI)
  assume "length sm \<le> 5"
  then show "older_window sm = []" by (rule older_window_short)
next
  assume "length sm \<le> 5"
  then show "degradation_check sm = Inr []" by (rule degradation_check_short)
next
  assume "length ms \<le> 5 \<and> analyze_model_performance ms = Inr issues"
  then show "list_all (\<lambda>i. title i \<noteq> degradation_title) issues"
    using analyze_model_performance_short by blast
next
  assume a: "analyze_model_performance ms = Inr issues \<and> list_ex (\<lambda>i. title i = degradation_title) issues"
  show "6 \<le> length ms"
  proof (rule ccontr)
    assume "\<not> 6 \<le> length ms"
    then have "length ms \<le> 5" by simp
    with a have "list_all (\<lambda>i. title i \<noteq> degradation_title) issues"
      using analyze_model_performance_short by blast
    with a show False
      by (auto simp: list_all_iff list_ex_iff)
  qed
qed

theorem degradation_needs_six_points_witness:
  "analyze_model_performance three_points = Inr []
   \<and> length three_points = 3
   \<and> list_all (\<lambda>i. title i \<noteq> degradation_title) ([] :: Issue list)
   \<and> analyze_model_performance six_points
       = Inr [degradation_issue (SFloat (8 / 10)) (SFloat (9 / 10)) (SFloat (1 / 10))]
   \<and> title (degradation_issue (SFloat (8 / 10)) (SFloat (9 / 10)) (SFloat (1 / 10))) = degradation_title
   \<and> 6 \<le> length six_points"
proof -
  have t: "title (degradation_issue (SFloat (8 / 10)) (SFloat (9 / 10)) (SFloat (1 / 10))) = degradation_title"
    by (simp add: degradation_issue_def degradation_title_def)
  have l3: "length three_points \<le> 5" "length three_points = 3"
    by (simp_all add: three_points_def)
  have a: "list_all (\<lambda>i. title i \<noteq> degradation_title) ([] :: Issue list)"
    by (rule degradation_needs_six_points [of "[]" three_points "[]", THEN conjunct2,
          THEN conjunct1, THEN mp, OF conjI [OF l3(1) three_points_result]])
  have ex: "list_ex (\<lambda>i. title i = degradation_title)
              [degradation_issue (SFloat (8 / 10)) (SFloat (9 / 10)) (SFloat (1 / 10))]"
    by (simp add: degradation_issue_def degradation_title_def)
  have b: "6 \<le> length six_points"
    by (rule degradation_needs_six_points [of "[]" six_points
          "[degradation_issue (SFloat (8 / 10)) (SFloat (9 / 10)) (SFloat (1 / 10))]",
          THEN conjunct2, THEN conjunct2, THEN mp, OF conjI [OF six_points_result ex]])
  from three_points_result l3(2) a six_points_result t b show ?thesis
    by blast
qed

text \<open>
  The claim that the F1 check fires on a section with a single metric point fails: on one
  point with an F1 score of 0.5 the check returns no issue.
\<close>

theorem single_point_low_f1_counterexample:
  "num_of (get_default (metric_point ''2024-01-01'' (9 / 10) (1 / 2)) ''f1_score'' (SInt 0)) = Some (1 / 2)
   \<and> analyze_model_performance [metric_point ''2024-01-01'' (9 / 10) (1 / 2)] = Inr []"
  by (simp add: ml_eval)

text \<open>
  C5, as amended. With fewer than 2 metric points the model-performance check returns no
  issue. With at least 2 points that can be sorted by their timestamps, whatever list of
  issues the trend check returns, the check returns that list followed by the
  medium/quality issue with confidence 0.85 exactly when the F1 score of the last point in
  time is below 0.7. Sorting keeps the points, and string timestamps can always be sorted.
\<close>

theorem low_f1_needs_two_points:
  "(length ms < 2 \<longrightarrow> analyze_model_performance ms = Inr [])
   \<and> (2 \<le> length ms \<and> py_sorted timestamp_key ms = Inr sm \<and> degradation_check sm = Inr ds
        \<and> num_of (get_default (last sm) ''f1_score'' (SInt 0)) = Some x
      \<longrightarrow> analyze_model_performance ms
            = Inr (ds @ (if x < 7 / 10
                         then [low_f1_issue (get_default (last sm) ''f1_score'' (SInt 0)) x
                                 (get_default (last sm) ''accuracy'' (SInt 0))]
                         else [])))
   \<and> severity (low_f1_issue f y a) = ''medium'' \<and> category (low_f1_issue f y a) = ''quality''
   \<and> confidence (low_f1_issue f y a) = 85 / 100
   \<and> (py_sorted timestamp_key ms = Inr sm \<longrightarrow> mset sm = mset ms)
   \<and> ((\<forall>m \<in> set ms. \<exists>s. timestamp_key m = SStr s)
        \<longrightarrow> (\<exists>sm. py_sorted timestamp_key ms = Inr sm
                  \<and> sorted (map (\<lambda>m. the (str_of (timestamp_key m))) sm)))"
proof (intro conjI impI)
  assume "length ms < 2"
  then show "analyze_model_performance ms = Inr []"
    by (simp add: analyze_model_performance_def)
next
  assume a: "2 \<le> length ms \<and> py_sorted timestamp_key ms = Inr sm \<and> degradation_check sm = Inr ds
        \<and> num_of (get_default (last sm) ''f1_score'' (SInt 0)) = Some x"
  then have ne: "\<not> (ms = [] \<or> length ms < 2)" by auto
  from a have s: "py_sorted (\<lambda>x. get_default x ''timestamp'' (SStr [])) ms = Inr sm"
    by (simp add: timestamp_key_def [abs_def])
  from a show "analyze_model_performance ms
            = Inr (ds @ (if x < 7 / 10
                         then [low_f1_issue (get_default (last sm) ''f1_score'' (SInt 0)) x
                                 (get_default (last sm) ''accuracy'' (SInt 0))]
                         else []))"
    using ne by (simp add: analyze_model_performance_def s low_f1_check_def Let_def f1_score_threshold_def)
next
  show "severity (low_f1_issue f y a) = ''medium''"
    by (simp add: low_f1_issue_def)
next
  show "category (low_f1_issue f y a) = ''quality''"
    by (simp add: low_f1_issue_def)
next
  show "confidence (low_f1_issue f y a) = 85 / 100"
    by (simp add: low_f1_issue_def)
next
  assume "py_sorted timestamp_key ms = Inr sm"
  then show "mset sm = mset ms" by (rule py_sorted_mset)
next
  assume "\<forall>m \<in> set ms. \<exists>s. timestamp_key m = SStr s"
  then show "\<exists>sm. py_sorted timestamp_key ms = Inr sm
                  \<and> sorted (map (\<lambda>m. the (str_of (timestamp_key m))) sm)"
    by (rule py_sorted_strings)
qed

theorem low_f1_needs_two_points_witness:
  "analyze_model_performance two_points
     = Inr [low_f1_issue (SFloat (1 / 2)) (1 / 2) (SFloat (9 / 10))]
   \<and> analyze_model_performance [metric_point ''2024-01-02'' (9 / 10) (1 / 2)] = Inr []
   \<and> py_sorted timestamp_key two_points
       = Inr [metric_point ''2024-01-01'' (9 / 10) (9 / 10), metric_point ''2024-01-02'' (9 / 10) (1 / 2)]"
proof -
  let ?sm = "[metric_point ''2024-01-01'' (9 / 10) (9 / 10), metric_point ''2024-01-02'' (9 / 10) (1 / 2)]"
  have s: "py_sorted timestamp_key two_points = Inr ?sm"
    by (simp add: two_points_def timestamp_key_def ml_eval)
  have d: "degradation_check ?sm = Inr []"
    by (simp add: degradation_check_short)
  have f: "num_of (get_default (last ?sm) ''f1_score'' (SInt 0)) = Some (1 / 2)"
    by (simp add: ml_eval)
  have l: "2 \<le> length two_points"
    by (simp add: two_points_def)
  have l1: "length [metric_point ''2024-01-02'' (9 / 10) (1 / 2)] < 2"
    by simp
  note T = low_f1_needs_two_points [of two_points ?sm "[]" "1 / 2" SNone 0 SNone]
  from T l s d f have "analyze_model_performance two_points
            = Inr ([] @ (if (1 / 2 :: real) < 7 / 10
                         then [low_f1_issue (get_default (last ?sm) ''f1_score'' (SInt 0)) (1 / 2)
                                 (get_default (last ?sm) ''accuracy'' (SInt 0))]
                         else []))"
    by blast
  then have 1: "analyze_model_performance two_points
     = Inr [low_f1_issue (SFloat (1 / 2)) (1 / 2) (SFloat (9 / 10))]"
    by (simp add: metric_point_def get_default_def)
  from low_f1_needs_two_points [of "[metric_point ''2024-01-02'' (9 / 10) (1 / 2)]" "[]" "[]" 0 SNone 0 SNone] l1
  have 2: "analyze_model_performance [metric_point ''2024-01-02'' (9 / 10) (1 / 2)] = Inr []"
    by blast
  from 1 2 s show ?thesis by blast
qed

end
